theory Spec2Isabelle
  imports Main "HOL-Library.Word"
begin

section \<open>Bulk registration of FIDO2 security keys: step2CreateAndActivateCredential.py\<close>

text \<open>
  A shallow embedding of \<^verbatim>\<open>src/bulkRegistration/step2CreateAndActivateCredential.py\<close>.
  Python exceptions are values of \<open>exn\<close>; a function that raises returns \<open>Inl\<close>.
  Everything outside the script (the authenticator, the operator at the keyboard, the
  random source, Microsoft Graph) is a test double: a record of reply functions, each
  a function of the calls made so far, so that a reply may depend on the whole history.
  The script's mutable global \<^verbatim>\<open>pin\<close> is a field of the state that every function
  takes and returns. Python \<^verbatim>\<open>str\<close> values are \<open>string\<close>s holding their UTF-8 bytes;
  the script never measures a decoded string, it only compares and writes it.
\<close>

subsection \<open>Exceptions\<close>

datatype exn =
    Error string          \<comment> \<open>\<^verbatim>\<open>raise Exception(msg)\<close> in the script\<close>
  | IndexError            \<comment> \<open>\<^verbatim>\<open>seq[i]\<close> out of range\<close>
  | StructError           \<comment> \<open>\<^verbatim>\<open>struct.error\<close>: buffer too short for the format\<close>
  | UnicodeDecodeError    \<comment> \<open>\<^verbatim>\<open>bytes.decode("utf-8")\<close> on bytes that are not UTF-8\<close>
  | KeyError              \<comment> \<open>\<^verbatim>\<open>d[k]\<close> on a missing key\<close>
  | JSONDecodeError       \<comment> \<open>\<^verbatim>\<open>json.loads\<close> or \<^verbatim>\<open>response.json()\<close> on text that is not JSON\<close>
  | BinasciiError string  \<comment> \<open>\<^verbatim>\<open>binascii.Error\<close> of \<^verbatim>\<open>base64.b64decode\<close>, with its message\<close>
  | ValueError            \<comment> \<open>\<^verbatim>\<open>base64.b64decode\<close> on a \<^verbatim>\<open>str\<close> that is not ASCII\<close>
  | External string       \<comment> \<open>an \<^verbatim>\<open>Exception\<close> raised inside a library, the device or the network\<close>
  | KeyboardInterrupt     \<comment> \<open>a \<^verbatim>\<open>BaseException\<close> that is not an \<^verbatim>\<open>Exception\<close>\<close>
  | SystemExit            \<comment> \<open>raised by \<^verbatim>\<open>quit()\<close> and \<^verbatim>\<open>sys.exit(1)\<close>; not an \<^verbatim>\<open>Exception\<close>\<close>

text \<open>What \<^verbatim>\<open>except Exception\<close> catches; a bare \<^verbatim>\<open>except:\<close> catches every \<open>exn\<close>.\<close>

fun is_Exception :: "exn \<Rightarrow> bool" where
  "is_Exception KeyboardInterrupt = False"
| "is_Exception SystemExit = False"
| "is_Exception _ = True"

subsection \<open>Configuration (configs.json)\<close>

record configs =
  setRandomPIN :: bool
  randomPINLength :: int
  setMinimumPINLength :: bool
  minimumPINLength :: int
  setForceChangePin :: bool

subsection \<open>Bytes\<close>

type_synonym byte = "8 word"

text \<open>\<^verbatim>\<open>seq[i]\<close> for a non-negative literal index: IndexError out of range.\<close>

definition index :: "'a list \<Rightarrow> nat \<Rightarrow> exn + 'a" where
  "index xs i = (if i < length xs then Inr (xs ! i) else Inl IndexError)"

text \<open>\<^verbatim>\<open>seq[a:b]\<close> for non-negative literal bounds: a slice never raises, it is cut short.\<close>

definition slice_seq :: "'a list \<Rightarrow> nat \<Rightarrow> nat \<Rightarrow> 'a list" where
  "slice_seq xs a b = take (b - a) (drop a xs)"

text \<open>\<^verbatim>\<open>struct.pack(">I", n)\<close>: four bytes, most significant first.\<close>

definition pack_I :: "32 word \<Rightarrow> byte list" where
  "pack_I n = [ucast (drop_bit 24 n), ucast (drop_bit 16 n), ucast (drop_bit 8 n), ucast n]"

text \<open>\<^verbatim>\<open>struct.unpack_from(">I", buf)[0]\<close>: struct.error when \<open>buf\<close> has fewer than four bytes.\<close>

fun unpack_from_I :: "byte list \<Rightarrow> exn + 32 word" where
  "unpack_from_I (b0 # b1 # b2 # b3 # _) =
     Inr (word_of_nat (unat b0 * 2 ^ 24 + unat b1 * 2 ^ 16 + unat b2 * 2 ^ 8 + unat b3))"
| "unpack_from_I _ = Inl StructError"

text \<open>\<^verbatim>\<open>bytes.ljust(width, b"\0")\<close>: pad on the right, never cut.\<close>

definition ljust :: "byte list \<Rightarrow> nat \<Rightarrow> byte list" where
  "ljust bs width = bs @ replicate (width - length bs) 0"

text \<open>
  \<^verbatim>\<open>bytes.decode("utf-8")\<close>. The decoder is strict: it accepts exactly the well-formed
  byte sequences of the Unicode standard (no overlong forms, no surrogates, nothing
  above U+10FFFF) and raises UnicodeDecodeError on anything else. A decoded string is
  kept as its UTF-8 bytes, so decoding well-formed input changes no byte.
\<close>

definition continuation :: "byte \<Rightarrow> bool" where
  "continuation b = (0x80 \<le> b \<and> b \<le> 0xBF)"

fun utf8_valid :: "byte list \<Rightarrow> bool" where
  "utf8_valid [] = True"
| "utf8_valid (b # bs) =
     (if b < 0x80 then utf8_valid bs
      else if 0xC2 \<le> b \<and> b \<le> 0xDF then
        (case bs of c1 # r \<Rightarrow> continuation c1 \<and> utf8_valid r | _ \<Rightarrow> False)
      else if b = 0xE0 then
        (case bs of c1 # c2 # r \<Rightarrow>
           0xA0 \<le> c1 \<and> c1 \<le> 0xBF \<and> continuation c2 \<and> utf8_valid r | _ \<Rightarrow> False)
      else if b = 0xED then
        (case bs of c1 # c2 # r \<Rightarrow>
           0x80 \<le> c1 \<and> c1 \<le> 0x9F \<and> continuation c2 \<and> utf8_valid r | _ \<Rightarrow> False)
      else if 0xE1 \<le> b \<and> b \<le> 0xEF then
        (case bs of c1 # c2 # r \<Rightarrow>
           continuation c1 \<and> continuation c2 \<and> utf8_valid r | _ \<Rightarrow> False)
      else if b = 0xF0 then
        (case bs of c1 # c2 # c3 # r \<Rightarrow>
           0x90 \<le> c1 \<and> c1 \<le> 0xBF \<and> continuation c2 \<and> continuation c3 \<and> utf8_valid r
         | _ \<Rightarrow> False)
      else if 0xF1 \<le> b \<and> b \<le> 0xF3 then
        (case bs of c1 # c2 # c3 # r \<Rightarrow>
           continuation c1 \<and> continuation c2 \<and> continuation c3 \<and> utf8_valid r
         | _ \<Rightarrow> False)
      else if b = 0xF4 then
        (case bs of c1 # c2 # c3 # r \<Rightarrow>
           0x80 \<le> c1 \<and> c1 \<le> 0x8F \<and> continuation c2 \<and> continuation c3 \<and> utf8_valid r
         | _ \<Rightarrow> False)
      else False)"

definition decode_utf8 :: "byte list \<Rightarrow> exn + string" where
  "decode_utf8 bs =
     (if utf8_valid bs then Inr (map (\<lambda>b. char_of (unat b)) bs) else Inl UnicodeDecodeError)"

subsection \<open>Base64 and JSON of the standard library\<close>

text \<open>
  \<^verbatim>\<open>base64.b64decode(s)\<close> for a \<^verbatim>\<open>str\<close>, as \<^verbatim>\<open>binascii.a2b_base64\<close> of CPython 3.11
  computes it outside strict mode. A character outside the standard alphabet (so also
  "-" and "_" of the URL-safe alphabet) is skipped. The digits are taken four at a time;
  a "=" counts as padding only after two digits of the group, and padding that completes
  the group ends the decoding, whatever follows. A group left incomplete at the end of
  the text is an error: nothing is padded for the caller.
\<close>

definition b64_digit :: "char \<Rightarrow> nat option" where
  "b64_digit c =
     (let n = (of_char c :: nat) in
      if 65 \<le> n \<and> n \<le> 90 then Some (n - 65)
      else if 97 \<le> n \<and> n \<le> 122 then Some (n - 71)
      else if 48 \<le> n \<and> n \<le> 57 then Some (n + 4)
      else if n = 43 then Some 62
      else if n = 47 then Some 63
      else None)"

text \<open>
  The loop over the characters: \<open>quad_pos\<close> digits of the current group are read,
  \<open>leftchar\<close> holds the bits not yet written, \<open>pads\<close> counts the "=" seen since the
  last digit, \<open>out\<close> is what has been decoded. The second message is longer in
  CPython (it gives the number of digits).
\<close>

fun a2b_base64 :: "string \<Rightarrow> nat \<Rightarrow> nat \<Rightarrow> nat \<Rightarrow> byte list \<Rightarrow> exn + byte list" where
  "a2b_base64 [] quad_pos leftchar pads out =
     (if quad_pos = 0 then Inr out
      else if quad_pos = 1 then Inl (BinasciiError ''Invalid base64-encoded string'')
      else Inl (BinasciiError ''Incorrect padding''))"
| "a2b_base64 (c # cs) quad_pos leftchar pads out =
     (if c = CHR ''='' then
        (if 2 \<le> quad_pos \<and> 4 \<le> quad_pos + (pads + 1) then Inr out
         else a2b_base64 cs quad_pos leftchar (if 2 \<le> quad_pos then pads + 1 else pads) out)
      else
        (case b64_digit c of
           None \<Rightarrow> a2b_base64 cs quad_pos leftchar pads out
         | Some v \<Rightarrow>
             if quad_pos = 0 then a2b_base64 cs 1 v 0 out
             else if quad_pos = 1 then
               a2b_base64 cs 2 (v mod 16) 0 (out @ [word_of_nat (leftchar * 4 + v div 16)])
             else if quad_pos = 2 then
               a2b_base64 cs 3 (v mod 4) 0 (out @ [word_of_nat (leftchar * 16 + v div 4)])
             else a2b_base64 cs 0 0 0 (out @ [word_of_nat (leftchar * 64 + v)])))"

definition b64decode :: "string \<Rightarrow> exn + byte list" where
  "b64decode s =
     (if list_ex (\<lambda>c. 128 \<le> (of_char c :: nat)) s then Inl ValueError
      else a2b_base64 s 0 0 0 [])"

text \<open>
  What \<^verbatim>\<open>json.loads\<close> returns: \<^verbatim>\<open>None\<close>, a bool, an int, a float (kept as its
  \<^verbatim>\<open>repr\<close>), a str, a list or a dict. The parser itself is a library function and a
  parameter of the world below.
\<close>

datatype json =
    JNone
  | JBool bool
  | JInt int
  | JFloat string
  | JStr string
  | JList "json list"
  | JDict "(string \<times> json) list"

subsection \<open>PIN generation (generate_pin, lines 351-377)\<close>

definition disallowed_pins :: "string list" where
  "disallowed_pins =
     [''12345678'', ''12341234'', ''87654321'', ''12344321'', ''11223344'',
      ''12121212'', ''123456'', ''123123'', ''654321'', ''123321'', ''112233'',
      ''121212'', ''520520'', ''123654'', ''159753'']"

text \<open>\<^verbatim>\<open>string.digits\<close>.\<close>

definition string_digits :: string where
  "string_digits = ''0123456789''"

text \<open>
  \<^verbatim>\<open>secrets.choice(seq)\<close>: the random source is a function \<open>rnd\<close> from the number of
  the draw to a raw random number; the element chosen is the one at that number
  modulo the length.
\<close>

definition secrets_choice :: "(nat \<Rightarrow> nat) \<Rightarrow> nat \<Rightarrow> string \<Rightarrow> char" where
  "secrets_choice rnd k seq = seq ! (rnd k mod length seq)"

text \<open>
  \<^verbatim>\<open>"".join(secrets.choice(string.digits) for _ in range(length))\<close>, the draws
  numbered from \<open>k\<close>. \<^verbatim>\<open>range(length)\<close> is empty for a length below 1.
\<close>

definition draw_digits :: "(nat \<Rightarrow> nat) \<Rightarrow> nat \<Rightarrow> int \<Rightarrow> string" where
  "draw_digits rnd k len = map (\<lambda>i. secrets_choice rnd (k + i) string_digits) [0..<nat len]"

text \<open>The loop's test: \<^verbatim>\<open>len(set(digits)) != 1 and digits not in disallowed_pins\<close>.\<close>

definition pin_accepted :: "string \<Rightarrow> bool" where
  "pin_accepted digits = (card (set digits) \<noteq> 1 \<and> digits \<notin> set disallowed_pins)"

text \<open>
  The \<^verbatim>\<open>while True\<close> loop. It returns the PIN and the number of draws consumed so
  far; \<open>None\<close> is the loop that never returns.
\<close>

partial_function (option) generate_pin ::
  "int \<Rightarrow> (nat \<Rightarrow> nat) \<Rightarrow> nat \<Rightarrow> (string \<times> nat) option" where
  "generate_pin len rnd k =
     (let digits = draw_digits rnd k len in
      if pin_accepted digits then Some (digits, k + nat len)
      else generate_pin len rnd (k + nat len))"

subsection \<open>Credential creation options (build_creation_options, lines 210-258)\<close>

text \<open>
  \<^verbatim>\<open>CredProtectExtension.POLICY\<close> of the fido2 library, with the level the script's
  comment gives it: OPTIONAL is "userVerificationOptional", level 1.
\<close>

datatype cred_protect_policy = OPTIONAL | OPTIONAL_WITH_LIST | REQUIRED


record rp_entity =
  rp_ident :: string
  rp_name :: string

record user_entity =
  user_ident :: "byte list"
  user_displayName :: string
  user_name :: string

record pub_key_cred_param =
  cred_type :: string
  alg :: int

record authenticator_selection =
  authenticatorAttachment :: string
  requireResidentKey :: bool
  userVerification :: string

record extension_inputs =
  hmacCreateSecret :: bool
  enforceCredentialProtectionPolicy :: bool
  credentialProtectionPolicy :: cred_protect_policy

record creation_options =
  challenge :: "byte list"
  timeout :: int
  attestation :: string
  rp :: rp_entity
  user :: user_entity
  pubKeyCredParams :: "pub_key_cred_param list"
  excludeCredentials :: "string list"
  authenticatorSelection :: authenticator_selection
  extensions :: extension_inputs

text \<open>
  \<^verbatim>\<open>base64url_to_bytearray\<close> (lines 117-121). \<^verbatim>\<open>base64.urlsafe_b64decode\<close> is a
  library function and a parameter here; it raises on text that is not base64.
\<close>

definition replace_char :: "char \<Rightarrow> char \<Rightarrow> string \<Rightarrow> string" where
  "replace_char old new s = map (\<lambda>c. if c = old then new else c) s"

definition base64url_to_bytearray ::
  "(string \<Rightarrow> exn + byte list) \<Rightarrow> string \<Rightarrow> exn + byte list" where
  "base64url_to_bytearray urlsafe_b64decode b64url_string =
     (let temp = replace_char CHR ''-'' CHR ''+'' (replace_char CHR ''_'' CHR ''/'' b64url_string)
      in urlsafe_b64decode (temp @ replicate (4 - length temp mod 4) CHR ''=''))"

text \<open>
  The dictionary under the key "publicKey". The challenge is decoded before the user
  id, as the dictionary display evaluates its entries in order.
\<close>

definition build_creation_options ::
  "(string \<Rightarrow> exn + byte list) \<Rightarrow> string \<Rightarrow> string \<Rightarrow> string \<Rightarrow> string \<Rightarrow> string
     \<Rightarrow> exn + creation_options" where
  "build_creation_options urlsafe_b64decode challenge_text userId displayName nm rp_id =
     (case base64url_to_bytearray urlsafe_b64decode challenge_text of
        Inl e \<Rightarrow> Inl e
      | Inr challenge_bytes \<Rightarrow>
          (case base64url_to_bytearray urlsafe_b64decode userId of
             Inl e \<Rightarrow> Inl e
           | Inr user_bytes \<Rightarrow>
               Inr \<lparr> challenge = challenge_bytes,
                     timeout = 0,
                     attestation = ''direct'',
                     rp = \<lparr> rp_ident = rp_id, rp_name = ''Microsoft'' \<rparr>,
                     user = \<lparr> user_ident = user_bytes, user_displayName = displayName,
                              user_name = nm \<rparr>,
                     pubKeyCredParams =
                       [\<lparr> cred_type = ''public-key'', alg = - 7 \<rparr>,
                        \<lparr> cred_type = ''public-key'', alg = - 257 \<rparr>],
                     excludeCredentials = [],
                     authenticatorSelection =
                       \<lparr> authenticatorAttachment = ''cross-platform'',
                         requireResidentKey = True,
                         userVerification = ''required'' \<rparr>,
                     extensions =
                       \<lparr> hmacCreateSecret = True,
                         enforceCredentialProtectionPolicy = True,
                         credentialProtectionPolicy = OPTIONAL \<rparr> \<rparr>))"

subsection \<open>The world outside the script\<close>

text \<open>What a ceremony hands to the activation call (the encoded strings of lines 170-186).\<close>

record artifact =
  att :: string
  clientData :: string
  credId :: string
  extn :: string

text \<open>
  \<^verbatim>\<open>ctap.info.options\<close>: a dictionary from option name to bool; \<^verbatim>\<open>.get(name)\<close> is
  \<open>None\<close> for an option the authenticator does not list.
\<close>

record info =
  opt_clientPin :: "bool option"
  opt_rk :: "bool option"
  opt_setMinPINLength :: "bool option"

text \<open>Every call the script makes to something outside itself, in the order made.\<close>

datatype call =
    TokenRequest
  | WaitDevice
  | ListAllDevices
  | WritePacket "byte list"
  | ReadPacket
  | ApduExchange "byte list"
  | Select
  | GetInfo
  | SetPin string
  | GetPinToken string
  | SetMinPinLength int
  | SetForceChangePin
  | MakeCredential creation_options "string option"
  | ActivationRequest string

text \<open>
  An authenticator transport as \<^verbatim>\<open>enumerate_devices\<close> yields it: a CtapHidDevice
  (\<open>is_hid\<close>) or a CtapPcscDevice. Each reply is a function of the calls made before.
\<close>

record device =
  is_hid :: bool
  channel_id :: "32 word"
  packet_size :: nat
  write_packet_reply :: "call list \<Rightarrow> exn + unit"
  read_packet_reply :: "call list \<Rightarrow> exn + byte list"
  apdu_exchange_reply :: "call list \<Rightarrow> byte list \<Rightarrow> exn + (byte list \<times> byte \<times> byte)"
  select_reply :: "call list \<Rightarrow> exn + unit"
  get_info_reply :: "call list \<Rightarrow> exn + info"
  set_pin_reply :: "call list \<Rightarrow> string \<Rightarrow> exn + unit"
  get_pin_token_reply :: "call list \<Rightarrow> string \<Rightarrow> exn + unit"
  set_min_pin_length_reply :: "call list \<Rightarrow> exn + unit"
  asks_for_pin :: "call list \<Rightarrow> bool"
  make_credential_reply :: "call list \<Rightarrow> creation_options \<Rightarrow> string option \<Rightarrow> exn + artifact"

text \<open>
  A serial number: \<^verbatim>\<open>info.serial\<close> of the first YubiKey ykman lists (an int or None),
  or the string \<^verbatim>\<open>get_thales_serial_number\<close> returns.
\<close>

datatype serial = YubiKeySerial "int option" | ThalesSerial string

record http_response =
  status_code :: int
  json_body :: "(string \<times> string) list option"  \<comment> \<open>\<open>None\<close>: the body is not JSON\<close>

text \<open>
  \<open>windows_nonadmin\<close> is \<^verbatim>\<open>WindowsClient.is_available() and not IsUserAnAdmin()\<close>;
  \<open>bytes_overhead\<close> is what \<^verbatim>\<open>sys.getsizeof\<close> reports for an empty bytes object
  (33 on 64-bit CPython, 17 on 32-bit); \<open>operator_input k\<close> is what the operator types
  at the k-th hidden prompt; \<open>json_loads\<close> is \<^verbatim>\<open>json.loads\<close>. The activation endpoint
  sees the request: the user of the URL, the encoded strings of the artifact, the
  decoded extension results, the serial number of the display name and the token.
\<close>

record world =
  cfg :: configs
  windows_nonadmin :: bool
  bytes_overhead :: nat
  urlsafe_b64decode :: "string \<Rightarrow> exn + byte list"
  json_loads :: "string \<Rightarrow> exn + json"
  rnd :: "nat \<Rightarrow> nat"
  operator_input :: "nat \<Rightarrow> string"
  token_reply :: "call list \<Rightarrow> exn + string"
  wait_device_reply :: "call list \<Rightarrow> exn + device"
  list_all_devices_reply :: "call list \<Rightarrow> exn + int option list"
  activation_reply ::
    "call list \<Rightarrow> string \<Rightarrow> artifact \<Rightarrow> json \<Rightarrow> serial \<Rightarrow> string \<Rightarrow> exn + http_response"

subsection \<open>State and control flow\<close>

text \<open>
  \<open>pin\<close> is the module's global; \<open>calls\<close> records the calls made so far; \<open>draws\<close>
  counts the random digits drawn and \<open>prompts\<close> the hidden prompts answered.
\<close>

record state =
  pin :: string
  calls :: "call list"
  draws :: nat
  prompts :: nat

text \<open>
  A statement takes the state and returns its result (a value or the exception it
  raised) with the state it leaves; \<open>None\<close> is a statement that never returns.
\<close>

type_synonym 'a prog = "state \<Rightarrow> ((exn + 'a) \<times> state) option"

definition ok :: "'a \<Rightarrow> 'a prog" where
  "ok x = (\<lambda>s. Some (Inr x, s))"

definition raise :: "exn \<Rightarrow> 'a prog" where
  "raise e = (\<lambda>s. Some (Inl e, s))"

definition lift :: "exn + 'a \<Rightarrow> 'a prog" where
  "lift r = (\<lambda>s. Some (r, s))"

text \<open>Sequencing: an exception of the first statement skips the rest.\<close>

definition then_do :: "'a prog \<Rightarrow> ('a \<Rightarrow> 'b prog) \<Rightarrow> 'b prog" where
  "then_do m f =
     (\<lambda>s. case m s of
             None \<Rightarrow> None
           | Some (Inl e, s') \<Rightarrow> Some (Inl e, s')
           | Some (Inr x, s') \<Rightarrow> f x s')"

text \<open>\<^verbatim>\<open>try: m  except: h\<close> with a bare except clause.\<close>

definition try_except :: "'a prog \<Rightarrow> (exn \<Rightarrow> 'a prog) \<Rightarrow> 'a prog" where
  "try_except m h =
     (\<lambda>s. case m s of
             None \<Rightarrow> None
           | Some (Inl e, s') \<Rightarrow> h e s'
           | Some (Inr x, s') \<Rightarrow> Some (Inr x, s'))"

text \<open>
  \<^verbatim>\<open>try: m  finally: c\<close>: the cleanup runs whatever \<open>m\<close> did; an exception of the
  cleanup replaces the result of \<open>m\<close>.
\<close>

definition finally_do :: "'a prog \<Rightarrow> unit prog \<Rightarrow> 'a prog" where
  "finally_do m c =
     (\<lambda>s. case m s of
             None \<Rightarrow> None
           | Some (r, s') \<Rightarrow>
               (case c s' of
                  None \<Rightarrow> None
                | Some (Inl e, s'') \<Rightarrow> Some (Inl e, s'')
                | Some (Inr _, s'') \<Rightarrow> Some (r, s'')))"

text \<open>A call to the outside: the reply is read off the history, the call is recorded.\<close>

definition external :: "call \<Rightarrow> (call list \<Rightarrow> exn + 'a) \<Rightarrow> 'a prog" where
  "external c reply = (\<lambda>s. Some (reply (calls s), s\<lparr>calls := calls s @ [c]\<rparr>))"

definition getpass :: "world \<Rightarrow> string prog" where
  "getpass w = (\<lambda>s. Some (Inr (operator_input w (prompts s)), s\<lparr>prompts := prompts s + 1\<rparr>))"

definition read_pin :: "string prog" where
  "read_pin = (\<lambda>s. Some (Inr (pin s), s))"

definition assign_pin :: "string \<Rightarrow> unit prog" where
  "assign_pin v = (\<lambda>s. Some (Inr (), s\<lparr>pin := v\<rparr>))"

subsection \<open>PIN handling (generate_and_set_pin, lines 380-398; set_ctap21_flags, lines 401-436)\<close>

text \<open>\<^verbatim>\<open>generate_pin()\<close> on the state: the draws consumed are counted.\<close>

definition fresh_pin :: "world \<Rightarrow> string prog" where
  "fresh_pin w =
     (\<lambda>s. case generate_pin (randomPINLength (cfg w)) (rnd w) (draws s) of
             None \<Rightarrow> None
           | Some (digits, k) \<Rightarrow> Some (Inr digits, s\<lparr>draws := k\<rparr>))"

text \<open>
  \<^verbatim>\<open>Ctap2(device)\<close> asks the authenticator for its info; \<^verbatim>\<open>quit()\<close> raises
  SystemExit. The global is assigned before the PIN is sent to the authenticator.
\<close>

definition generate_and_set_pin :: "world \<Rightarrow> device \<Rightarrow> unit prog" where
  "generate_and_set_pin w dev =
     (if setRandomPIN (cfg w) then
        then_do (external GetInfo (get_info_reply dev)) (\<lambda>inf.
          if opt_clientPin inf = Some True then raise SystemExit
          else
            then_do (fresh_pin w) (\<lambda>digits.
            then_do (assign_pin digits) (\<lambda>_.
            external (SetPin digits) (\<lambda>h. set_pin_reply dev h digits))))
      else ok ())"

definition set_ctap21_flags :: "world \<Rightarrow> device \<Rightarrow> unit prog" where
  "set_ctap21_flags w dev =
     (if \<not> windows_nonadmin w then
        then_do (if \<not> setRandomPIN (cfg w) then then_do (getpass w) assign_pin else ok ()) (\<lambda>_.
        then_do (external GetInfo (get_info_reply dev)) (\<lambda>inf.
          if opt_setMinPINLength inf = Some True then
            then_do read_pin (\<lambda>p.
            then_do (external (GetPinToken p) (\<lambda>h. get_pin_token_reply dev h p)) (\<lambda>_.
            then_do
              (if setMinimumPINLength (cfg w) then
                 external (SetMinPinLength (minimumPINLength (cfg w)))
                   (set_min_pin_length_reply dev)
               else ok ()) (\<lambda>_.
            if setForceChangePin (cfg w) then
              external SetForceChangePin (set_min_pin_length_reply dev)
            else ok ())))
          else ok ()))
      else ok ())"

subsection \<open>Serial number (get_serial_number, lines 439-445; get_thales_serial_number, lines 448-488)\<close>

text \<open>\<^verbatim>\<open>sys.getsizeof(recv)\<close>: the size of the object in memory, not its length.\<close>

definition sys_getsizeof :: "nat \<Rightarrow> byte list \<Rightarrow> nat" where
  "sys_getsizeof overhead bs = overhead + length bs"

text \<open>
  Lines 456-466: what the USB path makes of the packet read. \<^verbatim>\<open>recv[8]\<close> is read only
  when \<^verbatim>\<open>recv[7] != 0\<close> is false, as \<^verbatim>\<open>or\<close> evaluates.
\<close>

definition hid_serial_of_response :: "nat \<Rightarrow> 32 word \<Rightarrow> byte list \<Rightarrow> exn + string" where
  "hid_serial_of_response overhead cid recv =
     (case unpack_from_I recv of
        Inl e \<Rightarrow> Inl e
      | Inr r_channel \<Rightarrow>
          if r_channel \<noteq> cid then Inl (Error ''Wrong channel'')
          else
            (case index recv 7 of
               Inl e \<Rightarrow> Inl e
             | Inr b7 \<Rightarrow>
                 if b7 \<noteq> 0 then Inl (Error ''Unable to get Thales Serial Number'')
                 else
                   (case index recv 8 of
                      Inl e \<Rightarrow> Inl e
                    | Inr b8 \<Rightarrow>
                        if b8 \<noteq> 0x02 then Inl (Error ''Unable to get Thales Serial Number'')
                        else if sys_getsizeof overhead recv < 17 then
                          Inl (Error ''Unable to get Thales Serial Number'')
                        else decode_utf8 (slice_seq recv 9 17))))"

text \<open>\<^verbatim>\<open>fido2.pcsc.SW_SUCCESS\<close> and the two APDUs of the contactless path.\<close>

definition SW_SUCCESS :: "byte \<times> byte" where
  "SW_SUCCESS = (0x90, 0x00)"

definition AID_CM :: "byte list" where
  "AID_CM = [0xa0, 0x00, 0x00, 0x00, 0x03, 0x00, 0x00, 0x00]"

definition select_cm_apdu :: "byte list" where
  "select_cm_apdu = [0x00, 0xa4, 0x04, 0x00] @ [word_of_nat (length AID_CM)] @ AID_CM"

definition get_data_apdu :: "byte list" where
  "get_data_apdu = [0x80, 0xCA, 0x01, 0x04]"

text \<open>Lines 471-480: the body of the \<^verbatim>\<open>try\<close>.\<close>

definition nfc_try_body :: "device \<Rightarrow> string prog" where
  "nfc_try_body dev =
     then_do (external (ApduExchange select_cm_apdu)
                (\<lambda>h. apdu_exchange_reply dev h select_cm_apdu)) (\<lambda>(resp, sw1, sw2).
       if (sw1, sw2) \<noteq> SW_SUCCESS then raise (Error ''Card Manager applet selection failure.'')
       else
         then_do (external (ApduExchange get_data_apdu)
                    (\<lambda>h. apdu_exchange_reply dev h get_data_apdu)) (\<lambda>(resp, sw1, sw2).
           if (sw1, sw2) \<noteq> SW_SUCCESS then raise (Error ''Unable to get Thales serial number.'')
           else lift (decode_utf8 (drop 3 resp))))"

text \<open>
  Lines 448-488. On the contactless path the \<^verbatim>\<open>except:\<close> clause returns the empty
  string and the \<^verbatim>\<open>finally:\<close> clause calls \<^verbatim>\<open>device._select()\<close>.
\<close>

definition get_thales_serial_number :: "world \<Rightarrow> device \<Rightarrow> string prog" where
  "get_thales_serial_number w dev =
     (if is_hid dev then
        then_do (external
                   (WritePacket (ljust (pack_I (channel_id dev) @ [0xD0, 0x00, 0x01, 0x55])
                                   (packet_size dev)))
                   (write_packet_reply dev)) (\<lambda>_.
        then_do (external ReadPacket (read_packet_reply dev)) (\<lambda>recv.
        lift (hid_serial_of_response (bytes_overhead w) (channel_id dev) recv)))
      else
        finally_do (try_except (nfc_try_body dev) (\<lambda>e. ok []))
          (external Select (select_reply dev)))"

definition get_serial_number :: "world \<Rightarrow> device \<Rightarrow> serial prog" where
  "get_serial_number w dev =
     then_do (external ListAllDevices (list_all_devices_reply w)) (\<lambda>found.
       case found of
         yubikey_serial # _ \<Rightarrow> ok (YubiKeySerial yubikey_serial)
       | [] \<Rightarrow> then_do (get_thales_serial_number w dev) (\<lambda>sn. ok (ThalesSerial sn)))"

subsection \<open>The ceremony (create_credentials_on_security_key, lines 124-198)\<close>

text \<open>
  \<^verbatim>\<open>wait_device()\<close> by its outcome: the device found, or the exception of the poll
  that saw more than one.
\<close>

definition wait_device :: "world \<Rightarrow> device prog" where
  "wait_device w = external WaitDevice (wait_device_reply w)"

text \<open>\<^verbatim>\<open>CliInteraction.request_pin\<close> (lines 106-110): the typed PIN is returned, not stored.\<close>

definition request_pin :: "world \<Rightarrow> string prog" where
  "request_pin w = (if \<not> setRandomPIN (cfg w) then getpass w else read_pin)"

text \<open>
  \<^verbatim>\<open>client.make_credential\<close>: the Windows client takes no PIN from the script; the
  fido2 client asks \<^verbatim>\<open>request_pin\<close> when the authenticator wants a PIN.
\<close>

definition make_credential :: "world \<Rightarrow> device \<Rightarrow> creation_options \<Rightarrow> artifact prog" where
  "make_credential w dev opts =
     (\<lambda>s. if \<not> windows_nonadmin w \<and> asks_for_pin dev (calls s) then
             then_do (request_pin w) (\<lambda>p.
               external (MakeCredential opts (Some p))
                 (\<lambda>h. make_credential_reply dev h opts (Some p))) s
           else
             external (MakeCredential opts None)
               (\<lambda>h. make_credential_reply dev h opts None) s)"

definition create_credentials_on_security_key ::
  "world \<Rightarrow> string \<Rightarrow> string \<Rightarrow> string \<Rightarrow> string \<Rightarrow> string \<Rightarrow> (artifact \<times> serial) prog" where
  "create_credentials_on_security_key w user_id challenge_text user_display_name usr rp_id =
     then_do (wait_device w) (\<lambda>dev.
     then_do (get_serial_number w dev) (\<lambda>serial_number.
     then_do
       (if windows_nonadmin w then assign_pin ''n/a''
        else
          then_do (generate_and_set_pin w dev) (\<lambda>_.
          then_do (external GetInfo (get_info_reply dev)) (\<lambda>inf.
            if opt_rk inf = Some False then raise SystemExit else ok ()))) (\<lambda>_.
     then_do (lift (build_creation_options (urlsafe_b64decode w)
                      challenge_text user_id user_display_name usr rp_id)) (\<lambda>pkcco.
     then_do (make_credential w dev pkcco) (\<lambda>result.
     then_do
       (if setMinimumPINLength (cfg w) \<or> setForceChangePin (cfg w) then set_ctap21_flags w dev
        else ok ()) (\<lambda>_.
     ok (result, serial_number)))))))"

subsection \<open>Activation (create_and_activate_fido_method, lines 299-348)\<close>

text \<open>What the function returns beside the flag: the "id" of the body, or \<^verbatim>\<open>[]\<close>.\<close>

datatype auth_method = MethodId string | EmptyList

text \<open>
  Lines 326-328, the entry "clientExtensionResults" of the request body:
  \<^verbatim>\<open>json.loads(base64.b64decode(str(client_extensions)).decode("utf-8"))\<close>. The
  argument is the string \<^verbatim>\<open>websafe_encode\<close> made of the extension results (line 183),
  which is URL-safe base64 without padding, and the decoder here is the standard one:
  the expression raises \<^verbatim>\<open>binascii.Error\<close> unless the encoded text happens to fill
  whole groups of four digits.
\<close>

definition clientExtensionResults :: "world \<Rightarrow> string \<Rightarrow> exn + json" where
  "clientExtensionResults w client_extensions =
     (case b64decode client_extensions of
        Inl e \<Rightarrow> Inl e
      | Inr raw \<Rightarrow>
          (case decode_utf8 raw of
             Inl e \<Rightarrow> Inl e
           | Inr txt \<Rightarrow> json_loads w txt))"

text \<open>
  Lines 299-348. The body is built before \<^verbatim>\<open>requests.post\<close> is called, so an
  exception of the decoding leaves the function with no request sent. One request is
  made; its status decides what is returned.
\<close>

definition create_and_activate_fido_method ::
  "world \<Rightarrow> string \<Rightarrow> artifact \<Rightarrow> serial \<Rightarrow> string \<Rightarrow> (bool \<times> auth_method) prog" where
  "create_and_activate_fido_method w usr art serial_number access_token =
     then_do (lift (clientExtensionResults w (extn art))) (\<lambda>results.
     then_do (external (ActivationRequest usr)
                (\<lambda>h. activation_reply w h usr art results serial_number access_token))
       (\<lambda>response.
       if status_code response = 201 then
         (case json_body response of
            None \<Rightarrow> raise JSONDecodeError
          | Some create_response \<Rightarrow>
              (case map_of create_response ''id'' of
                 None \<Rightarrow> raise KeyError
               | Some ident \<Rightarrow> ok (True, MethodId ident)))
       else ok (False, EmptyList)))"

subsection \<open>The batch (main, lines 537-607)\<close>

record out_row =
  upn :: string
  authMethodObjectId :: auth_method
  serialNumber :: serial
  PIN :: string

datatype ending =
    Finished            \<comment> \<open>the loop ran out of rows\<close>
  | Aborted exn         \<comment> \<open>the \<^verbatim>\<open>except Exception\<close> clause printed the error and returned\<close>
  | Uncaught exn        \<comment> \<open>the exception left \<^verbatim>\<open>main\<close>\<close>

text \<open>
  What a run leaves: the rows written after the header row, the users announced by
  "processing user", the final state, and how the run ended.
\<close>

record report =
  written :: "out_row list"
  processing :: "string list"
  at_exit :: state
  ending :: ending

text \<open>Lines 569-586: the body of the \<^verbatim>\<open>try\<close>, for a row of at least six fields.\<close>

definition try_body :: "world \<Rightarrow> string \<Rightarrow> string list \<Rightarrow> (auth_method \<times> serial) prog" where
  "try_body w access_token row =
     then_do (create_credentials_on_security_key w (row ! 2) (row ! 3) (row ! 1) (row ! 0) (row ! 5))
       (\<lambda>(art, serial_number).
     then_do (create_and_activate_fido_method w (row ! 0) art serial_number access_token)
       (\<lambda>(activated, auth_method).
     ok (auth_method, serial_number)))"

text \<open>
  The \<^verbatim>\<open>for\<close> loop. The row with \<open>line_count = 0\<close> is the header and is skipped; the
  six fields are read before the \<^verbatim>\<open>try\<close>, so a short row raises IndexError out of
  \<^verbatim>\<open>main\<close>. The pauses for the Enter key and the prints change nothing here.
\<close>

fun main_loop ::
  "world \<Rightarrow> string \<Rightarrow> nat \<Rightarrow> string list list \<Rightarrow> out_row list \<Rightarrow> string list \<Rightarrow> state
     \<Rightarrow> report option" where
  "main_loop w access_token line_count [] rows users s =
     Some \<lparr> written = rows, processing = users, at_exit = s, ending = Finished \<rparr>"
| "main_loop w access_token line_count (row # rest) rows users s =
     (if line_count = 0 then main_loop w access_token (line_count + 1) rest rows users s
      else if length row < 6 then
        Some \<lparr> written = rows, processing = users, at_exit = s, ending = Uncaught IndexError \<rparr>
      else
        (case try_body w access_token row s of
           None \<Rightarrow> None
         | Some (Inl e, s') \<Rightarrow>
             Some \<lparr> written = rows, processing = users @ [row ! 0], at_exit = s',
                    ending = (if is_Exception e then Aborted e else Uncaught e) \<rparr>
         | Some (Inr (auth_method, serial_number), s') \<Rightarrow>
             main_loop w access_token (line_count + 1) rest
               (rows @ [\<lparr> upn = row ! 0, authMethodObjectId = auth_method,
                          serialNumber = serial_number, PIN = pin s' \<rparr>])
               (users @ [row ! 0]) s'))"

text \<open>The module starts with \<^verbatim>\<open>pin = ""\<close>.\<close>

definition initial_state :: state where
  "initial_state = \<lparr> pin = [], calls = [], draws = 0, prompts = 0 \<rparr>"

text \<open>
  \<^verbatim>\<open>main\<close>: the access token is fetched once, before the files are opened; its
  failure leaves \<^verbatim>\<open>main\<close> with nothing written.
\<close>

definition main :: "world \<Rightarrow> string list list \<Rightarrow> report option" where
  "main w in_csv =
     (case external TokenRequest (token_reply w) initial_state of
        None \<Rightarrow> None
      | Some (Inl e, s) \<Rightarrow>
          Some \<lparr> written = [], processing = [], at_exit = s, ending = Uncaught e \<rparr>
      | Some (Inr access_token, s) \<Rightarrow> main_loop w access_token 0 in_csv [] [] s)"

subsection \<open>A laboratory world\<close>

text \<open>
  Concrete doubles on which the functions above are run: a USB key that answers the
  serial-number command with "THALES01", a random source that counts 0, 1, 2, ..., an
  operator who types 271828, a credential creation that times out for user "bob" and an
  activation endpoint that answers 400 for user "carol" and 201 otherwise. The key
  reports the two extensions the creation options ask for, so the extension results
  are the 39 characters \<^verbatim>\<open>{"credProtect": 1, "hmac-secret": true}\<close> of \<^verbatim>\<open>json.dumps\<close>,
  encoded by \<^verbatim>\<open>websafe_encode\<close> in 52 digits with no padding; \<open>lab_json_loads\<close> is
  \<^verbatim>\<open>json.loads\<close> on that text and on \<^verbatim>\<open>{}\<close>, the only ones the laboratory decodes.
\<close>

definition lab_response :: "byte list" where
  "lab_response = [0x01, 0x02, 0x03, 0x04, 0xD0, 0x00, 0x0A, 0x00, 0x02,
                   0x54, 0x48, 0x41, 0x4C, 0x45, 0x53, 0x30, 0x31] @ replicate 47 0"

definition lab_extensions_text :: string where
  "lab_extensions_text =
     ''{'' @ [CHR 0x22] @ ''credProtect'' @ [CHR 0x22] @ '': 1, '' @
     [CHR 0x22] @ ''hmac-secret'' @ [CHR 0x22] @ '': true}''"

definition lab_json_loads :: "string \<Rightarrow> exn + json" where
  "lab_json_loads t =
     (if t = lab_extensions_text
      then Inr (JDict [(''credProtect'', JInt 1), (''hmac-secret'', JBool True)])
      else if t = ''{}'' then Inr (JDict [])
      else Inl JSONDecodeError)"

definition lab_artifact :: artifact where
  "lab_artifact =
     \<lparr> att = ''o2NmbXQ'', clientData = ''eyJ0eXA'', credId = ''Y3JlZA'',
       extn = ''eyJjcmVkUHJvdGVjdCI6IDEsICJobWFjLXNlY3JldCI6IHRydWV9'' \<rparr>"

definition lab_device :: device where
  "lab_device =
     \<lparr> is_hid = True, channel_id = 0x01020304, packet_size = 64,
       write_packet_reply = (\<lambda>h. Inr ()),
       read_packet_reply = (\<lambda>h. Inr lab_response),
       apdu_exchange_reply = (\<lambda>h a. Inl (External ''no card'')),
       select_reply = (\<lambda>h. Inr ()),
       get_info_reply = (\<lambda>h. Inr \<lparr> opt_clientPin = Some False, opt_rk = Some True,
                                     opt_setMinPINLength = Some True \<rparr>),
       set_pin_reply = (\<lambda>h p. Inr ()),
       get_pin_token_reply = (\<lambda>h p. Inr ()),
       set_min_pin_length_reply = (\<lambda>h. Inr ()),
       asks_for_pin = (\<lambda>h. True),
       make_credential_reply = (\<lambda>h opts p.
          if user_name (user opts) = ''bob'' then Inl (External ''timeout'') else Inr lab_artifact) \<rparr>"

definition lab_cfg :: configs where
  "lab_cfg = \<lparr> setRandomPIN = True, randomPINLength = 6, setMinimumPINLength = False,
               minimumPINLength = 6, setForceChangePin = False \<rparr>"

definition lab_world :: world where
  "lab_world =
     \<lparr> cfg = lab_cfg, windows_nonadmin = False, bytes_overhead = 33,
       urlsafe_b64decode = (\<lambda>t. Inr [0x01, 0x02, 0x03]),
       json_loads = lab_json_loads,
       rnd = (\<lambda>i. i),
       operator_input = (\<lambda>k. ''271828''),
       token_reply = (\<lambda>h. Inr ''token''),
       wait_device_reply = (\<lambda>h. Inr lab_device),
       list_all_devices_reply = (\<lambda>h. Inr []),
       activation_reply = (\<lambda>h usr art results sn tok.
          if usr = ''carol'' then Inr \<lparr> status_code = 400, json_body = None \<rparr>
          else Inr \<lparr> status_code = 201, json_body = Some [(''id'', ''abc123'')] \<rparr>) \<rparr>"

definition lab_csv :: "string list list" where
  "lab_csv =
     [[''username'', ''displayName'', ''userId'', ''challenge'', ''challengeExpiry'', ''rpId''],
      [''alice'', ''Alice'', ''AQID'', ''BAUG'', ''2024-01-01'', ''login.microsoft.com''],
      [''bob'', ''Bob'', ''AQID'', ''BAUG'', ''2024-01-01'', ''login.microsoft.com''],
      [''carol'', ''Carol'', ''AQID'', ''BAUG'', ''2024-01-01'', ''login.microsoft.com'']]"

text \<open>
  A USB key whose answer to the serial-number command is cut short: twelve bytes, the
  channel and the two status bytes as expected, then "ABC".
\<close>

definition short_response :: "byte list" where
  "short_response = [0x01, 0x02, 0x03, 0x04, 0xD0, 0x00, 0x03, 0x00, 0x02, 0x41, 0x42, 0x43]"

definition short_device :: device where
  "short_device = lab_device\<lparr> read_packet_reply := (\<lambda>h. Inr short_response) \<rparr>"

text \<open>
  More authenticators: the laboratory's key reached over the contactless transport
  (its card answers no APDU), the same card taken off the reader, so that selecting
  the default application fails as well, and the key with a PIN already set.
\<close>

definition card_device :: device where
  "card_device = lab_device\<lparr> is_hid := False \<rparr>"

definition removed_card_device :: device where
  "removed_card_device = card_device\<lparr> select_reply := (\<lambda>h. Inl (External ''card removed'')) \<rparr>"

definition pinned_device :: device where
  "pinned_device =
     lab_device\<lparr> get_info_reply := (\<lambda>h. Inr \<lparr> opt_clientPin = Some True, opt_rk = Some True,
                                                 opt_setMinPINLength = Some True \<rparr>) \<rparr>"

text \<open>The laboratory with the key whose PIN is already set.\<close>

definition pinned_world :: world where
  "pinned_world = lab_world\<lparr> wait_device_reply := (\<lambda>h. Inr pinned_device) \<rparr>"

text \<open>
  The laboratory configured to ask the operator for the PIN and to set the minimum PIN
  length; the same without the minimum PIN length; a worklist of the first user alone; a worklist with "carol" before "alice";
  and the state in which the loop starts, the token fetched.
\<close>

definition prompting_world :: world where
  "prompting_world =
     lab_world\<lparr> cfg := lab_cfg\<lparr> setRandomPIN := False, setMinimumPINLength := True \<rparr> \<rparr>"

definition asking_world :: world where
  "asking_world = lab_world\<lparr> cfg := lab_cfg\<lparr> setRandomPIN := False \<rparr> \<rparr>"

definition alice_csv :: "string list list" where
  "alice_csv = take 2 lab_csv"

definition carol_csv :: "string list list" where
  "carol_csv = [lab_csv ! 0, lab_csv ! 3, lab_csv ! 1]"

definition after_token :: state where
  "after_token = initial_state\<lparr> calls := [TokenRequest] \<rparr>"

text \<open>
  A key whose extension results are the empty dictionary: \<^verbatim>\<open>json.dumps\<close> makes
  \<^verbatim>\<open>{}\<close> of it, which \<^verbatim>\<open>websafe_encode\<close> writes as the three digits e30.
\<close>

definition bare_device :: device where
  "bare_device =
     lab_device\<lparr> make_credential_reply := (\<lambda>h opts p. Inr (lab_artifact\<lparr> extn := ''e30'' \<rparr>)) \<rparr>"

definition bare_world :: world where
  "bare_world = lab_world\<lparr> wait_device_reply := (\<lambda>h. Inr bare_device) \<rparr>"

text \<open>The users of the activation requests among the calls made, in order.\<close>

fun activation_user :: "call \<Rightarrow> string option" where
  "activation_user (ActivationRequest usr) = Some usr"
| "activation_user _ = None"

definition activation_requests :: "call list \<Rightarrow> string list" where
  "activation_requests h = List.map_filter activation_user h"

section \<open>Properties\<close>

subsection \<open>Generated PINs\<close>

lemma length_draw_digits: "length (draw_digits src k len) = nat len"
  by (simp add: draw_digits_def)

lemma set_draw_digits: "set (draw_digits src k len) \<subseteq> set string_digits"
proof -
  have "string_digits ! (r mod length string_digits) \<in> set string_digits" for r
    by (rule nth_mem) (simp add: string_digits_def)
  then show ?thesis
    by (auto simp: draw_digits_def secrets_choice_def)
qed

lemma generate_pin_sound:
  assumes "generate_pin len src k = Some y"
  shows "\<exists>j. y = (draw_digits src (k + j * nat len) len, k + Suc j * nat len)
            \<and> pin_accepted (draw_digits src (k + j * nat len) len)
            \<and> (\<forall>i<j. \<not> pin_accepted (draw_digits src (k + i * nat len) len))"
proof (rule generate_pin.raw_induct[OF _ assms], goal_cases)
  case (1 gp len src k y)
  show ?case
  proof (cases "pin_accepted (draw_digits src k len)")
    case True
    with 1(2) have "y = (draw_digits src k len, k + nat len)"
      by (simp add: Let_def)
    with True show ?thesis
      by (intro exI[of _ 0]) simp
  next
    case False
    with 1(2) have "gp len src (k + nat len) = Some y"
      by (simp add: Let_def)
    from 1(1)[OF this] obtain j where
      j1: "y = (draw_digits src (k + nat len + j * nat len) len, k + nat len + Suc j * nat len)"
      and j2: "pin_accepted (draw_digits src (k + nat len + j * nat len) len)"
      and j3: "\<forall>i<j. \<not> pin_accepted (draw_digits src (k + nat len + i * nat len) len)"
      by blast
    have "\<not> pin_accepted (draw_digits src (k + i * nat len) len)" if "i < Suc j" for i
    proof (cases i)
      case 0
      with False show ?thesis by simp
    next
      case (Suc i')
      with that have "i' < j" by simp
      with j3 have "\<not> pin_accepted (draw_digits src (k + nat len + i' * nat len) len)"
        by blast
      then have "\<not> pin_accepted (draw_digits src (k + Suc i' * nat len) len)"
        by (simp add: algebra_simps)
      with Suc show ?thesis by blast
    qed
    with j1 j2 show ?thesis
      by (intro exI[of _ "Suc j"]) (simp add: algebra_simps)
  qed
qed

lemma generate_pin_first:
  assumes "pin_accepted (draw_digits src (k + j * nat len) len)"
    and "\<And>i. i < j \<Longrightarrow> \<not> pin_accepted (draw_digits src (k + i * nat len) len)"
  shows "generate_pin len src k = Some (draw_digits src (k + j * nat len) len, k + Suc j * nat len)"
  using assms
proof (induction j arbitrary: k)
  case 0
  then show ?case
    by (subst generate_pin.simps) simp
next
  case (Suc j)
  have rejected: "\<not> pin_accepted (draw_digits src k len)"
    using Suc.prems(2)[of 0] by simp
  have step: "generate_pin len src k = generate_pin len src (k + nat len)"
    by (subst generate_pin.simps) (simp add: rejected)
  have "generate_pin len src (k + nat len) =
          Some (draw_digits src (k + nat len + j * nat len) len, k + nat len + Suc j * nat len)"
  proof (rule Suc.IH)
    show "pin_accepted (draw_digits src (k + nat len + j * nat len) len)"
      using Suc.prems(1) by (simp add: algebra_simps)
    show "\<not> pin_accepted (draw_digits src (k + nat len + i * nat len) len)" if "i < j" for i
      using Suc.prems(2)[of "Suc i"] that by (simp add: algebra_simps)
  qed
  with step show ?case
    by (simp add: algebra_simps)
qed

lemma single_char_rejected: "length s = 1 \<Longrightarrow> \<not> pin_accepted s"
  by (cases s) (auto simp: pin_accepted_def)

lemma replicate_rejected: "0 < n \<Longrightarrow> \<not> pin_accepted (replicate n d)"
  by (simp add: pin_accepted_def)

lemma zero_ones_accepted:
  assumes "2 \<le> n"
  shows "pin_accepted (CHR ''0'' # replicate (n - 1) CHR ''1'')"
proof -
  have "set (CHR ''0'' # replicate (n - 1) CHR ''1'') = {CHR ''0'', CHR ''1''}"
    using assms by auto
  then have "card (set (CHR ''0'' # replicate (n - 1) CHR ''1'')) = 2"
    by simp
  moreover have "CHR ''0'' # replicate (n - 1) CHR ''1'' \<notin> set disallowed_pins"
    by (simp add: disallowed_pins_def)
  ultimately show ?thesis
    by (simp add: pin_accepted_def)
qed

lemma draw_digits_onto:
  assumes "set s \<subseteq> set string_digits"
  shows "\<exists>src. draw_digits src 0 (int (length s)) = s"
proof -
  have "\<forall>i. \<exists>j. i < length s \<longrightarrow> j < length string_digits \<and> string_digits ! j = s ! i"
  proof
    fix i
    show "\<exists>j. i < length s \<longrightarrow> j < length string_digits \<and> string_digits ! j = s ! i"
    proof (cases "i < length s")
      case True
      then have "s ! i \<in> set string_digits" using assms by auto
      then show ?thesis by (auto simp: in_set_conv_nth)
    next
      case False
      then show ?thesis by simp
    qed
  qed
  then obtain f where f: "\<And>i. i < length s \<Longrightarrow> f i < length string_digits \<and> string_digits ! f i = s ! i"
    by metis
  have "draw_digits f 0 (int (length s)) = map (\<lambda>i. s ! i) [0..<length s]"
    using f by (auto simp: draw_digits_def secrets_choice_def)
  then show ?thesis
    by (auto simp: map_nth)
qed


lemma generate_pin_none:
  assumes "\<And>j. \<not> pin_accepted (draw_digits src (k + j * nat len) len)"
  shows "generate_pin len src k = None"
proof (cases "generate_pin len src k")
  case None
  then show ?thesis .
next
  case (Some y)
  from generate_pin_sound[OF Some] assms show ?thesis by blast
qed

text \<open>
  A negative configured length: \<^verbatim>\<open>range\<close> of it is empty, the candidate is the empty
  string, which passes both tests, and the PIN returned has length 0.
\<close>

theorem generate_pin_negative_length:
  "generate_pin (- 3) (rnd lab_world) 0 = Some ([], 0)
   \<and> int (length (fst (the (generate_pin (- 3) (rnd lab_world) 0)))) \<noteq> - 3"
proof -
  have "generate_pin (- 3) (rnd lab_world) 0 = Some ([], 0)"
    by (subst generate_pin.simps) (simp add: draw_digits_def pin_accepted_def disallowed_pins_def)
  then show ?thesis
    by simp
qed

text \<open>
  Claim C5, with the length amended. \<^verbatim>\<open>generate_pin\<close> returns exactly the first
  candidate drawn from the random source that passes both tests: a candidate that fails
  one is dropped whole and a fresh one is drawn from the following positions of the
  random source, none is altered, and when no candidate ever passes nothing is returned.
  So a PIN that is returned is not one digit repeated, is not on the denylist and
  consists of decimal digits. Its length is the configured length when that is not
  negative, and 0 when it is.
\<close>

theorem generate_pin_policy:
  "(generate_pin len src k = Some (digits, k') \<longleftrightarrow>
      (\<exists>j. digits = draw_digits src (k + j * nat len) len
         \<and> k' = k + Suc j * nat len
         \<and> pin_accepted digits
         \<and> (\<forall>i<j. \<not> pin_accepted (draw_digits src (k + i * nat len) len))))
   \<and> (generate_pin len src k = None \<longleftrightarrow>
        (\<forall>j. \<not> pin_accepted (draw_digits src (k + j * nat len) len)))
   \<and> (generate_pin len src k = Some (digits, k') \<longrightarrow>
        length digits = nat len
      \<and> (int (length digits) = len \<longleftrightarrow> 0 \<le> len)
      \<and> card (set digits) \<noteq> 1
      \<and> (\<forall>n d. 0 < n \<longrightarrow> digits \<noteq> replicate n d)
      \<and> digits \<notin> set disallowed_pins
      \<and> set digits \<subseteq> set string_digits)"
proof (intro conjI)
  show "generate_pin len src k = Some (digits, k') \<longleftrightarrow>
      (\<exists>j. digits = draw_digits src (k + j * nat len) len
         \<and> k' = k + Suc j * nat len
         \<and> pin_accepted digits
         \<and> (\<forall>i<j. \<not> pin_accepted (draw_digits src (k + i * nat len) len)))"
  proof
    assume "generate_pin len src k = Some (digits, k')"
    from generate_pin_sound[OF this] show "\<exists>j. digits = draw_digits src (k + j * nat len) len
         \<and> k' = k + Suc j * nat len
         \<and> pin_accepted digits
         \<and> (\<forall>i<j. \<not> pin_accepted (draw_digits src (k + i * nat len) len))"
      by auto
  next
    assume "\<exists>j. digits = draw_digits src (k + j * nat len) len
         \<and> k' = k + Suc j * nat len
         \<and> pin_accepted digits
         \<and> (\<forall>i<j. \<not> pin_accepted (draw_digits src (k + i * nat len) len))"
    then obtain j where d: "digits = draw_digits src (k + j * nat len) len"
      and k': "k' = k + Suc j * nat len"
      and acc: "pin_accepted (draw_digits src (k + j * nat len) len)"
      and rej: "\<And>i. i < j \<Longrightarrow> \<not> pin_accepted (draw_digits src (k + i * nat len) len)"
      by blast
    from generate_pin_first[OF acc rej] d k' show "generate_pin len src k = Some (digits, k')"
      by simp
  qed
next
  show "generate_pin len src k = None \<longleftrightarrow>
        (\<forall>j. \<not> pin_accepted (draw_digits src (k + j * nat len) len))"
  proof
    assume none: "generate_pin len src k = None"
    show "\<forall>j. \<not> pin_accepted (draw_digits src (k + j * nat len) len)"
    proof (rule ccontr)
      assume "\<not> (\<forall>j. \<not> pin_accepted (draw_digits src (k + j * nat len) len))"
      then have ex: "\<exists>j. pin_accepted (draw_digits src (k + j * nat len) len)"
        by blast
      define m where "m = (LEAST j. pin_accepted (draw_digits src (k + j * nat len) len))"
      have acc: "pin_accepted (draw_digits src (k + m * nat len) len)"
        unfolding m_def using ex by (rule LeastI_ex)
      have rej: "\<not> pin_accepted (draw_digits src (k + i * nat len) len)" if "i < m" for i
        using that unfolding m_def by (rule not_less_Least)
      from generate_pin_first[OF acc rej] none show False
        by simp
    qed
  next
    assume "\<forall>j. \<not> pin_accepted (draw_digits src (k + j * nat len) len)"
    then show "generate_pin len src k = None"
      by (intro generate_pin_none) blast
  qed
next
  show "generate_pin len src k = Some (digits, k') \<longrightarrow>
        length digits = nat len
      \<and> (int (length digits) = len \<longleftrightarrow> 0 \<le> len)
      \<and> card (set digits) \<noteq> 1
      \<and> (\<forall>n d. 0 < n \<longrightarrow> digits \<noteq> replicate n d)
      \<and> digits \<notin> set disallowed_pins
      \<and> set digits \<subseteq> set string_digits"
  proof
    assume "generate_pin len src k = Some (digits, k')"
    from generate_pin_sound[OF this] obtain j where
      d: "digits = draw_digits src (k + j * nat len) len"
      and acc: "pin_accepted digits"
      by auto
    have len: "length digits = nat len"
      using d by (simp add: length_draw_digits)
    then have len': "int (length digits) = len \<longleftrightarrow> 0 \<le> len"
      by auto
    have norep: "digits \<noteq> replicate n c" if "0 < n" for n c
      using acc replicate_rejected[OF that, of c] by auto
    have sub: "set digits \<subseteq> set string_digits"
      using d set_draw_digits by simp
    from acc have "card (set digits) \<noteq> 1" and "digits \<notin> set disallowed_pins"
      by (simp_all add: pin_accepted_def)
    with len len' norep sub show "length digits = nat len
      \<and> (int (length digits) = len \<longleftrightarrow> 0 \<le> len)
      \<and> card (set digits) \<noteq> 1
      \<and> (\<forall>n d. 0 < n \<longrightarrow> digits \<noteq> replicate n d)
      \<and> digits \<notin> set disallowed_pins
      \<and> set digits \<subseteq> set string_digits"
      by blast
  qed
qed

text \<open>
  A random source that counts 1, 2, 3, ...: the first candidate of six digits, 123456,
  is on the denylist and is dropped; the second, 789012, is returned.
\<close>

theorem generate_pin_policy_witness:
  "draw_digits Suc 0 6 = ''123456''
   \<and> \<not> pin_accepted ''123456''
   \<and> generate_pin 6 Suc 0 = Some (''789012'', 12)
   \<and> int (length ''789012'') = 6
   \<and> card (set ''789012'') \<noteq> 1
   \<and> ''789012'' \<notin> set disallowed_pins"
proof -
  have first: "draw_digits Suc (0 + 0 * nat 6) 6 = ''123456''"
    by (simp add: draw_digits_def secrets_choice_def string_digits_def upt_rec)
  have second: "draw_digits Suc (0 + 1 * nat 6) 6 = ''789012''"
    by (simp add: draw_digits_def secrets_choice_def string_digits_def upt_rec)
  have rejected: "\<not> pin_accepted ''123456''"
    by (simp add: pin_accepted_def disallowed_pins_def)
  have accepted: "pin_accepted ''789012''"
    by (simp add: pin_accepted_def disallowed_pins_def)
  have "\<exists>j. ''789012'' = draw_digits Suc (0 + j * nat 6) 6
         \<and> (12 :: nat) = 0 + Suc j * nat 6
         \<and> pin_accepted ''789012''
         \<and> (\<forall>i<j. \<not> pin_accepted (draw_digits Suc (0 + i * nat 6) 6))"
  proof (intro exI[of _ 1] conjI allI impI)
    show "''789012'' = draw_digits Suc (0 + 1 * nat 6) 6"
      using second by simp
    show "(12 :: nat) = 0 + Suc 1 * nat 6"
      by simp
    show "pin_accepted ''789012''"
      by (rule accepted)
    fix i :: nat
    assume "i < 1"
    then have "i = 0" by simp
    with first rejected show "\<not> pin_accepted (draw_digits Suc (0 + i * nat 6) 6)"
      by simp
  qed
  then have run: "generate_pin 6 Suc 0 = Some (''789012'', 12)"
    using generate_pin_policy[of 6 Suc 0 "''789012''" 12] by blast
  have props: "int (length ''789012'') = 6 \<longleftrightarrow> (0 :: int) \<le> 6"
    "card (set ''789012'') \<noteq> 1" "''789012'' \<notin> set disallowed_pins"
    using generate_pin_policy[of 6 Suc 0 "''789012''" 12] run by blast+
  from first rejected run props show ?thesis
    by simp
qed

text \<open>
  Claim C10. The loop of \<^verbatim>\<open>generate_pin\<close> can return exactly when the configured
  length admits an acceptable PIN: for every length of at least 2 some random source
  makes it return; for length 1 it returns for no random source, from no position, since
  every candidate is one repeated digit; and in general some run returns if and only if
  some digit string of that length passes both tests.
\<close>

theorem generate_pin_terminates_iff:
  "(\<forall>len\<ge>2. \<exists>src. generate_pin len src 0 \<noteq> None)
   \<and> (\<forall>src k. generate_pin 1 src k = None)
   \<and> (\<forall>len. (\<exists>src k. generate_pin len src k \<noteq> None) \<longleftrightarrow>
              (\<exists>s. length s = nat len \<and> set s \<subseteq> set string_digits \<and> pin_accepted s))"
proof (intro conjI allI impI)
  fix len :: int
  assume "2 \<le> len"
  define s where "s = CHR ''0'' # replicate (nat len - 1) CHR ''1''"
  have acc: "pin_accepted s"
    unfolding s_def using \<open>2 \<le> len\<close> by (intro zero_ones_accepted) simp
  have "set s \<subseteq> set string_digits"
    by (auto simp: s_def string_digits_def)
  from draw_digits_onto[OF this] obtain src where src: "draw_digits src 0 (int (length s)) = s"
    by blast
  have "int (length s) = len"
    using \<open>2 \<le> len\<close> by (simp add: s_def)
  with src have "draw_digits src (0 + 0 * nat len) len = s"
    by simp
  with acc have "generate_pin len src 0 = Some (draw_digits src (0 + 0 * nat len) len, 0 + Suc 0 * nat len)"
    by (intro generate_pin_first) simp_all
  then show "\<exists>src. generate_pin len src 0 \<noteq> None"
    by (intro exI[of _ src]) simp
next
  fix src k
  show "generate_pin 1 src k = None"
    by (rule generate_pin_none) (simp add: single_char_rejected length_draw_digits)
next
  fix len :: int
  show "(\<exists>src k. generate_pin len src k \<noteq> None) \<longleftrightarrow>
        (\<exists>s. length s = nat len \<and> set s \<subseteq> set string_digits \<and> pin_accepted s)"
  proof
    assume "\<exists>src k. generate_pin len src k \<noteq> None"
    then obtain src k y where "generate_pin len src k = Some y"
      by auto
    from generate_pin_sound[OF this] obtain j where
      "pin_accepted (draw_digits src (k + j * nat len) len)"
      by blast
    then show "\<exists>s. length s = nat len \<and> set s \<subseteq> set string_digits \<and> pin_accepted s"
      using length_draw_digits set_draw_digits by blast
  next
    assume "\<exists>s. length s = nat len \<and> set s \<subseteq> set string_digits \<and> pin_accepted s"
    then obtain s where s: "length s = nat len" "set s \<subseteq> set string_digits" "pin_accepted s"
      by blast
    from draw_digits_onto[OF s(2)] obtain src where src: "draw_digits src 0 (int (length s)) = s"
      by blast
    have "draw_digits src 0 (int (length s)) = draw_digits src 0 len"
      using s(1) by (simp add: draw_digits_def)
    with src s(3) have "pin_accepted (draw_digits src (0 + 0 * nat len) len)"
      by simp
    then have "generate_pin len src 0 = Some (draw_digits src (0 + 0 * nat len) len, 0 + Suc 0 * nat len)"
      by (intro generate_pin_first) simp_all
    then show "\<exists>src k. generate_pin len src k \<noteq> None"
      by (intro exI[of _ src] exI[of _ 0]) simp
  qed
qed

text \<open>Length 2 against length 1.\<close>

theorem generate_pin_terminates_iff_witness:
  "(\<exists>src. generate_pin 2 src 0 \<noteq> None) \<and> generate_pin 1 (\<lambda>i. i) 0 = None
   \<and> (\<exists>s. length s = nat 2 \<and> set s \<subseteq> set string_digits \<and> pin_accepted s)"
proof -
  have a: "\<exists>src. generate_pin 2 src 0 \<noteq> None"
    using generate_pin_terminates_iff by simp
  have b: "generate_pin 1 (\<lambda>i. i) 0 = None"
    using generate_pin_terminates_iff by blast
  have "\<exists>src k. generate_pin 2 src k \<noteq> None"
    using a by blast
  then have c: "\<exists>s. length s = nat 2 \<and> set s \<subseteq> set string_digits \<and> pin_accepted s"
    using generate_pin_terminates_iff by blast
  from a b c show ?thesis by blast
qed

subsection \<open>The serial number over USB\<close>

text \<open>What does hold of the response's checks, for the record.\<close>

lemma unpack_from_I_length: "unpack_from_I recv = Inr c \<Longrightarrow> 4 \<le> length recv"
  by (cases recv rule: unpack_from_I.cases) auto

lemma hid_channel_mismatch:
  "unpack_from_I recv = Inr c \<Longrightarrow> c \<noteq> cid \<Longrightarrow>
   hid_serial_of_response ovh cid recv = Inl (Error ''Wrong channel'')"
  by (simp add: hid_serial_of_response_def)

lemma hid_status_mismatch:
  "unpack_from_I recv = Inr cid \<Longrightarrow> 9 \<le> length recv \<Longrightarrow> recv ! 7 \<noteq> 0 \<or> recv ! 8 \<noteq> 2 \<Longrightarrow>
   hid_serial_of_response ovh cid recv = Inl (Error ''Unable to get Thales Serial Number'')"
  by (auto simp: hid_serial_of_response_def index_def)

lemma hid_length_guard_dead: "17 \<le> ovh \<Longrightarrow> \<not> sys_getsizeof ovh recv < 17"
  by (simp add: sys_getsizeof_def)

lemma hid_accepts_any_length:
  "unpack_from_I recv = Inr cid \<Longrightarrow> 9 \<le> length recv \<Longrightarrow> recv ! 7 = 0 \<Longrightarrow> recv ! 8 = 2 \<Longrightarrow>
   17 \<le> ovh \<Longrightarrow>
   hid_serial_of_response ovh cid recv = decode_utf8 (slice_seq recv 9 17)"
  by (simp add: hid_serial_of_response_def index_def sys_getsizeof_def)

text \<open>
  Claim C2 (the code departs from it). A response of fewer than 17 bytes is not refused:
  the test of line 463 measures \<^verbatim>\<open>sys.getsizeof(recv)\<close>, which is never below 17.
  The twelve-byte response of the laboratory, with the right channel and status bytes,
  yields the serial "ABC" instead of an exception, both in the decoding of the response
  and in \<^verbatim>\<open>get_thales_serial_number\<close> as a whole.
\<close>

theorem hid_short_response_accepted:
  "length short_response = 12
   \<and> hid_serial_of_response 33 0x01020304 short_response = Inr ''ABC''
   \<and> map_option fst (get_thales_serial_number lab_world short_device initial_state) = Some (Inr ''ABC'')"
  by (simp add: short_response_def short_device_def lab_device_def lab_world_def initial_state_def
      get_thales_serial_number_def then_do_def external_def lift_def
      hid_serial_of_response_def index_def sys_getsizeof_def
      decode_utf8_def slice_seq_def char_of_def bit_Suc_0_iff)

text \<open>
  Claim C9. The status bytes are read with no test of the response's length before
  them: every response whose first four bytes echo the channel and that has fewer
  than 8 bytes raises IndexError at \<^verbatim>\<open>recv[7]\<close>, one of exactly 8 bytes with
  \<^verbatim>\<open>recv[7] == 0\<close> raises it at \<^verbatim>\<open>recv[8]\<close>, and such a response exists; none of
  the script's own exceptions is reached first.
\<close>

theorem hid_status_bytes_unguarded:
  "(\<forall>ovh cid recv. unpack_from_I recv = Inr cid \<and> length recv < 8
       \<longrightarrow> hid_serial_of_response ovh cid recv = Inl IndexError)
   \<and> (\<forall>ovh cid recv. unpack_from_I recv = Inr cid \<and> length recv = 8 \<and> recv ! 7 = 0
       \<longrightarrow> hid_serial_of_response ovh cid recv = Inl IndexError)
   \<and> (\<forall>ovh. \<exists>cid recv. length recv < 9 \<and> unpack_from_I recv = Inr cid
       \<and> hid_serial_of_response ovh cid recv = Inl IndexError)"
proof (intro conjI allI impI)
  fix ovh cid recv
  assume "unpack_from_I recv = Inr cid \<and> length recv < 8"
  then show "hid_serial_of_response ovh cid recv = Inl IndexError"
    by (simp add: hid_serial_of_response_def index_def)
next
  fix ovh cid recv
  assume "unpack_from_I recv = Inr cid \<and> length recv = 8 \<and> recv ! 7 = 0"
  then show "hid_serial_of_response ovh cid recv = Inl IndexError"
    by (simp add: hid_serial_of_response_def index_def)
next
  fix ovh
  have "hid_serial_of_response ovh 0x01020304 [0x01, 0x02, 0x03, 0x04] = Inl IndexError"
    by (simp add: hid_serial_of_response_def index_def)
  then show "\<exists>cid recv. length recv < 9 \<and> unpack_from_I recv = Inr cid
       \<and> hid_serial_of_response ovh cid recv = Inl IndexError"
    by (intro exI[of _ "0x01020304"] exI[of _ "[0x01, 0x02, 0x03, 0x04]"]) simp
qed

text \<open>A six-byte response on the laboratory's channel.\<close>

theorem hid_status_bytes_unguarded_witness:
  "unpack_from_I [0x01, 0x02, 0x03, 0x04, 0xD0, 0x00] = Inr 0x01020304
   \<and> length [0x01, 0x02, 0x03, 0x04, 0xD0, 0x00 :: byte] < 8
   \<and> hid_serial_of_response 33 0x01020304 [0x01, 0x02, 0x03, 0x04, 0xD0, 0x00] = Inl IndexError"
proof -
  have a: "unpack_from_I [0x01, 0x02, 0x03, 0x04, 0xD0, 0x00] = Inr 0x01020304"
    by simp
  have b: "length [0x01, 0x02, 0x03, 0x04, 0xD0, 0x00 :: byte] < 8"
    by simp
  from a b have "hid_serial_of_response 33 0x01020304 [0x01, 0x02, 0x03, 0x04, 0xD0, 0x00] = Inl IndexError"
    using hid_status_bytes_unguarded by blast
  with a b show ?thesis by blast
qed

subsection \<open>Creation options\<close>



subsection \<open>The serial number over the contactless transport\<close>

text \<open>Where an exception of the \<^verbatim>\<open>try\<close> body can come from.\<close>

lemma nfc_try_body_total:
  "\<exists>r1 s1. nfc_try_body dev s = Some (r1, s1)
     \<and> pin s1 = pin s \<and> draws s1 = draws s \<and> prompts s1 = prompts s
     \<and> (calls s1 = calls s @ [ApduExchange select_cm_apdu]
        \<or> calls s1 = calls s @ [ApduExchange select_cm_apdu, ApduExchange get_data_apdu])"
  by (auto simp: nfc_try_body_def then_do_def external_def raise_def lift_def
      split: sum.splits prod.splits)

lemma nfc_select_exchange_raises:
  "apdu_exchange_reply dev (calls s) select_cm_apdu = Inl e \<Longrightarrow>
   nfc_try_body dev s = Some (Inl e, s\<lparr>calls := calls s @ [ApduExchange select_cm_apdu]\<rparr>)"
  by (simp add: nfc_try_body_def then_do_def external_def)

lemma nfc_select_status_raises:
  "apdu_exchange_reply dev (calls s) select_cm_apdu = Inr (resp, sw1, sw2) \<Longrightarrow>
   (sw1, sw2) \<noteq> SW_SUCCESS \<Longrightarrow>
   nfc_try_body dev s =
     Some (Inl (Error ''Card Manager applet selection failure.''),
           s\<lparr>calls := calls s @ [ApduExchange select_cm_apdu]\<rparr>)"
  by (simp add: nfc_try_body_def then_do_def external_def raise_def)

lemma nfc_get_data_exchange_raises:
  "apdu_exchange_reply dev (calls s) select_cm_apdu = Inr (resp, sw1, sw2) \<Longrightarrow>
   (sw1, sw2) = SW_SUCCESS \<Longrightarrow>
   apdu_exchange_reply dev (calls s @ [ApduExchange select_cm_apdu]) get_data_apdu = Inl e \<Longrightarrow>
   nfc_try_body dev s =
     Some (Inl e, s\<lparr>calls := calls s @ [ApduExchange select_cm_apdu, ApduExchange get_data_apdu]\<rparr>)"
  by (simp add: nfc_try_body_def then_do_def external_def raise_def)

lemma nfc_get_data_status_raises:
  "apdu_exchange_reply dev (calls s) select_cm_apdu = Inr (resp, sw1, sw2) \<Longrightarrow>
   (sw1, sw2) = SW_SUCCESS \<Longrightarrow>
   apdu_exchange_reply dev (calls s @ [ApduExchange select_cm_apdu]) get_data_apdu
     = Inr (resp', sw1', sw2') \<Longrightarrow>
   (sw1', sw2') \<noteq> SW_SUCCESS \<Longrightarrow>
   nfc_try_body dev s =
     Some (Inl (Error ''Unable to get Thales serial number.''),
           s\<lparr>calls := calls s @ [ApduExchange select_cm_apdu, ApduExchange get_data_apdu]\<rparr>)"
  by (simp add: nfc_try_body_def then_do_def external_def raise_def)

text \<open>
  The card taken off the reader: the first APDU raises, the \<^verbatim>\<open>except\<close> clause
  returns the empty string, the cleanup \<^verbatim>\<open>device._select()\<close> raises in its turn, and
  it is this exception that leaves the function, not the empty serial.
\<close>

theorem nfc_cleanup_exception_propagates:
  "\<not> is_hid removed_card_device
   \<and> nfc_try_body removed_card_device initial_state
       = Some (Inl (External ''no card''),
               initial_state\<lparr>calls := [ApduExchange select_cm_apdu]\<rparr>)
   \<and> get_thales_serial_number lab_world removed_card_device initial_state
       = Some (Inl (External ''card removed''),
               initial_state\<lparr>calls := [ApduExchange select_cm_apdu, Select]\<rparr>)"
  by (simp add: get_thales_serial_number_def finally_do_def try_except_def nfc_try_body_def
      then_do_def external_def ok_def removed_card_device_def card_device_def lab_device_def
      initial_state_def)

text \<open>
  Claim C6, amended for the cleanup's own exception. On the contactless path the
  function always returns or raises (it never hangs), and its last call is the cleanup
  \<^verbatim>\<open>device._select()\<close>, made after whatever the \<^verbatim>\<open>try\<close> body did, on success and on
  exception. Every exception of the \<^verbatim>\<open>try\<close> body is caught: when the cleanup returns,
  the function raises nothing, an exception of the body, whichever it is, gives the
  empty serial, and a body that succeeds gives its serial. When the cleanup raises, its
  exception leaves the function in place of the result; no other exception can. The
  global PIN is untouched.
\<close>

theorem nfc_serial_caught_and_cleaned_up:
  assumes "\<not> is_hid dev"
  shows "\<exists>r s' r1 s1.
           get_thales_serial_number w dev s = Some (r, s')
         \<and> nfc_try_body dev s = Some (r1, s1)
         \<and> calls s' = calls s1 @ [Select]
         \<and> last (calls s') = Select
         \<and> pin s' = pin s
         \<and> (case select_reply dev (calls s1) of
               Inl e \<Rightarrow> r = Inl e
             | Inr u \<Rightarrow> (case r1 of Inl e \<Rightarrow> r = Inr [] | Inr sn \<Rightarrow> r = Inr sn))
         \<and> (select_reply dev (calls s1) = Inr () \<longrightarrow> (\<exists>sn. r = Inr sn))
         \<and> (select_reply dev (calls s1) = Inr () \<longrightarrow> (\<forall>e. r1 = Inl e \<longrightarrow> r = Inr []))"
proof -
  from nfc_try_body_total[of dev s] obtain r1 s1 where
    body: "nfc_try_body dev s = Some (r1, s1)" and p: "pin s1 = pin s"
    by blast
  show ?thesis
  proof (cases "select_reply dev (calls s1)")
    case (Inl e)
    with assms body p show ?thesis
      by (cases r1)
         (simp_all add: get_thales_serial_number_def finally_do_def try_except_def
            external_def ok_def)
  next
    case (Inr u)
    with assms body p show ?thesis
      by (cases r1)
         (simp_all add: get_thales_serial_number_def finally_do_def try_except_def
            external_def ok_def)
  qed
qed

text \<open>The laboratory's card raises on the first APDU; the serial is empty, Select is called.\<close>

theorem nfc_serial_caught_and_cleaned_up_witness:
  "\<not> is_hid card_device
   \<and> get_thales_serial_number lab_world card_device initial_state
       = Some (Inr [], initial_state\<lparr>calls := [ApduExchange select_cm_apdu, Select]\<rparr>)
   \<and> nfc_try_body card_device initial_state
       = Some (Inl (External ''no card''),
               initial_state\<lparr>calls := [ApduExchange select_cm_apdu]\<rparr>)"
proof -
  have a: "\<not> is_hid card_device"
    by (simp add: card_device_def lab_device_def)
  have b: "nfc_try_body card_device initial_state
       = Some (Inl (External ''no card''),
               initial_state\<lparr>calls := [ApduExchange select_cm_apdu]\<rparr>)"
    by (simp add: nfc_try_body_def then_do_def external_def card_device_def lab_device_def
        initial_state_def)
  have sel: "select_reply card_device [ApduExchange select_cm_apdu] = Inr ()"
    by (simp add: card_device_def lab_device_def)
  from nfc_serial_caught_and_cleaned_up[OF a, of lab_world initial_state] obtain r s' where
    run: "get_thales_serial_number lab_world card_device initial_state = Some (r, s')"
    and c: "calls s' = [ApduExchange select_cm_apdu, Select]"
    and r: "r = Inr []"
    using b sel by (auto simp: initial_state_def)
  have "s' = initial_state\<lparr>calls := [ApduExchange select_cm_apdu, Select]\<rparr>"
    using run b c
    by (auto simp: get_thales_serial_number_def a finally_do_def try_except_def external_def
        ok_def sel split: sum.splits)
  with a b run r show ?thesis
    by simp
qed

subsection \<open>Setting the PIN\<close>

text \<open>
  Claim C7. With \<^verbatim>\<open>setRandomPIN\<close> configured and an authenticator that reports
  \<^verbatim>\<open>clientPin\<close> as set, \<^verbatim>\<open>generate_and_set_pin\<close> raises SystemExit after the one
  call that reads the authenticator's info: the state it leaves differs from the one it
  found by that call alone, so no digit was drawn, the global PIN is unchanged and no
  PIN was sent to the authenticator. SystemExit is not an \<^verbatim>\<open>Exception\<close>: the batch's
  \<^verbatim>\<open>except\<close> clause does not catch it, and an entry whose \<^verbatim>\<open>try\<close> body raises it ends
  the run there, with no row written for it and no later entry read.
\<close>

theorem generate_and_set_pin_quits_on_set_pin:
  assumes "setRandomPIN (cfg w)"
    and "get_info_reply dev (calls s) = Inr dinfo"
    and "opt_clientPin dinfo = Some True"
  shows "generate_and_set_pin w dev s = Some (Inl SystemExit, s\<lparr>calls := calls s @ [GetInfo]\<rparr>)
       \<and> \<not> is_Exception SystemExit
       \<and> (\<forall>tok lc row rest rows users s0 s1.
             0 < lc \<and> 6 \<le> length row \<and> try_body w tok row s0 = Some (Inl SystemExit, s1) \<longrightarrow>
             main_loop w tok lc (row # rest) rows users s0
               = Some \<lparr> written = rows, processing = users @ [row ! 0], at_exit = s1,
                        ending = Uncaught SystemExit \<rparr>)"
  using assms
  by (simp add: generate_and_set_pin_def then_do_def external_def raise_def)


lemma quit_leaves_try_body:
  assumes "wait_device_reply w (calls s) = Inr dev"
    and "get_serial_number w dev (s\<lparr>calls := calls s @ [WaitDevice]\<rparr>) = Some (Inr sn, s2)"
    and "\<not> windows_nonadmin w"
    and "setRandomPIN (cfg w)"
    and "get_info_reply dev (calls s2) = Inr dinfo"
    and "opt_clientPin dinfo = Some True"
  shows "try_body w tok row s = Some (Inl SystemExit, s2\<lparr>calls := calls s2 @ [GetInfo]\<rparr>)"
  using assms
  by (simp add: try_body_def create_credentials_on_security_key_def wait_device_def
      generate_and_set_pin_def then_do_def external_def raise_def)

text \<open>The laboratory with a key whose PIN is set: nothing is written, the run is over.\<close>

theorem generate_and_set_pin_quits_on_set_pin_witness:
  "setRandomPIN (cfg pinned_world)
   \<and> generate_and_set_pin pinned_world pinned_device initial_state
       = Some (Inl SystemExit, initial_state\<lparr>calls := [GetInfo]\<rparr>)
   \<and> map_option (\<lambda>r. (written r, processing r, ending r, pin (at_exit r), draws (at_exit r)))
        (main pinned_world lab_csv)
       = Some ([], [''alice''], Uncaught SystemExit, [], 0)"
proof -
  have a: "setRandomPIN (cfg pinned_world)"
    by (simp add: pinned_world_def lab_world_def lab_cfg_def)
  have b: "get_info_reply pinned_device h
             = Inr \<lparr> opt_clientPin = Some True, opt_rk = Some True, opt_setMinPINLength = Some True \<rparr>" for h
    by (simp add: pinned_device_def lab_device_def)
  have c: "opt_clientPin \<lparr> opt_clientPin = Some True, opt_rk = Some True,
                           opt_setMinPINLength = Some True \<rparr> = Some True"
    by simp
  note quits = generate_and_set_pin_quits_on_set_pin[OF a b c]
  have run: "generate_and_set_pin pinned_world pinned_device initial_state
       = Some (Inl SystemExit, initial_state\<lparr>calls := [GetInfo]\<rparr>)"
    using quits[of initial_state] by (simp add: initial_state_def)
  have "map_option (\<lambda>r. (written r, processing r, ending r, pin (at_exit r), draws (at_exit r)))
        (main pinned_world lab_csv)
       = Some ([], [''alice''], Uncaught SystemExit, [], 0)"
    by (simp add: main_def initial_state_def try_body_def create_credentials_on_security_key_def
        wait_device_def get_serial_number_def get_thales_serial_number_def
        generate_and_set_pin_def then_do_def external_def raise_def lift_def ok_def
        pinned_world_def pinned_device_def lab_world_def lab_device_def lab_cfg_def lab_csv_def
        lab_response_def hid_serial_of_response_def index_def sys_getsizeof_def
        decode_utf8_def slice_seq_def char_of_def bit_Suc_0_iff)
  with a run show ?thesis
    by simp
qed

subsection \<open>Runs of the laboratory\<close>

text \<open>Facts and unfoldings with which the runs below are computed.\<close>

lemma lab_serial: "hid_serial_of_response 33 0x01020304 lab_response = Inr ''THALES01''"
  by (simp add: hid_serial_of_response_def lab_response_def index_def sys_getsizeof_def
      decode_utf8_def slice_seq_def continuation_def char_of_def bit_Suc_0_iff)

lemma lab_pin_first: "generate_pin 6 (\<lambda>i. i) 0 = Some (''012345'', 6)"
  by (subst generate_pin.simps)
     (simp add: draw_digits_def secrets_choice_def string_digits_def pin_accepted_def
        disallowed_pins_def upt_rec)

lemma lab_pin_second: "generate_pin 6 (\<lambda>i. i) 6 = Some (''678901'', 12)"
  by (subst generate_pin.simps)
     (simp add: draw_digits_def secrets_choice_def string_digits_def pin_accepted_def
        disallowed_pins_def upt_rec)

text \<open>
  The extension results of the laboratory's key fill whole groups of four digits and
  decode to the text that was encoded; the three digits e30 do not.
\<close>

lemma lab_extension_results:
  "clientExtensionResults w ''eyJjcmVkUHJvdGVjdCI6IDEsICJobWFjLXNlY3JldCI6IHRydWV9''
     = json_loads w lab_extensions_text"
  by (simp add: clientExtensionResults_def b64decode_def b64_digit_def decode_utf8_def
      lab_extensions_text_def char_of_def bit_Suc_0_iff)

lemma bare_extension_results:
  "clientExtensionResults w ''e30'' = Inl (BinasciiError ''Incorrect padding'')"
  by (simp add: clientExtensionResults_def b64decode_def b64_digit_def)

lemmas run_defs =
  ok_def raise_def lift_def then_do_def try_except_def finally_do_def external_def
  getpass_def read_pin_def assign_pin_def
  main_def initial_state_def try_body_def create_credentials_on_security_key_def
  create_and_activate_fido_method_def wait_device_def get_serial_number_def
  get_thales_serial_number_def generate_and_set_pin_def fresh_pin_def set_ctap21_flags_def
  make_credential_def request_pin_def build_creation_options_def base64url_to_bytearray_def
  replace_char_def ljust_def pack_I_def

lemmas lab_defs =
  lab_world_def lab_csv_def lab_device_def lab_cfg_def lab_artifact_def lab_json_loads_def
  lab_serial lab_pin_first lab_pin_second lab_extension_results bare_extension_results

subsection \<open>Activation\<close>

text \<open>
  What the activation call does: when the extension results do not decode it raises and
  sends nothing; otherwise it sends one request and returns the flag and the "id" for
  status 201, the flag False and the empty list for any other status.
\<close>

lemma activation_undecodable:
  assumes "clientExtensionResults w (extn art) = Inl e"
  shows "create_and_activate_fido_method w usr art sn tok s = Some (Inl e, s)"
  using assms
  by (simp add: create_and_activate_fido_method_def then_do_def lift_def)

lemma activation_created:
  assumes "clientExtensionResults w (extn art) = Inr results"
    and "activation_reply w (calls s) usr art results sn tok = Inr resp"
    and "status_code resp = 201"
    and "json_body resp = Some body"
    and "map_of body ''id'' = Some ident"
  shows "create_and_activate_fido_method w usr art sn tok s
           = Some (Inr (True, MethodId ident), s\<lparr>calls := calls s @ [ActivationRequest usr]\<rparr>)"
  using assms
  by (simp add: create_and_activate_fido_method_def then_do_def external_def ok_def lift_def)

lemma activation_refused:
  assumes "clientExtensionResults w (extn art) = Inr results"
    and "activation_reply w (calls s) usr art results sn tok = Inr resp"
    and "status_code resp \<noteq> 201"
  shows "create_and_activate_fido_method w usr art sn tok s
           = Some (Inr (False, EmptyList), s\<lparr>calls := calls s @ [ActivationRequest usr]\<rparr>)"
  using assms
  by (simp add: create_and_activate_fido_method_def then_do_def external_def ok_def lift_def)

text \<open>
  \<^verbatim>\<open>main\<close> writes the row of an entry whose two steps returned, with what the
  activation call returned beside the flag in the second column, and goes on.
\<close>

lemma main_loop_writes:
  assumes "0 < lc"
    and "6 \<le> length row"
    and "create_credentials_on_security_key w (row ! 2) (row ! 3) (row ! 1) (row ! 0) (row ! 5) s0
           = Some (Inr (art, sn), s)"
    and "create_and_activate_fido_method w (row ! 0) art sn tok s = Some (Inr (flag, am), s')"
  shows "main_loop w tok lc (row # rest) rows users s0
           = main_loop w tok (lc + 1) rest
               (rows @ [\<lparr> upn = row ! 0, authMethodObjectId = am, serialNumber = sn,
                          PIN = pin s' \<rparr>])
               (users @ [row ! 0]) s'"
  using assms by (simp add: try_body_def then_do_def ok_def)

text \<open>
  Claim C1. For an entry whose extension results decode and whose request is answered:
  with status 201 and an "id" in the body the activation call returns success and that
  identifier; with any other status it returns failure and the empty list in place of
  an identifier, and an identifier is returned in no other case than the first. Either
  way the calls made are those made before and the one request: nothing is sent again.
  In \<^verbatim>\<open>main\<close> the row appended for the entry carries in its
  second column that identifier in the first case and the empty list in the second, so
  the row of a refused entry is not the row of a registered method; the flag itself is
  not read, and the loop goes on to the next entry in both cases.
\<close>

theorem activation_status_decides:
  assumes "clientExtensionResults w (extn art) = Inr results"
    and "activation_reply w (calls s) usr art results sn tok = Inr resp"
  shows "(status_code resp = 201 \<and> json_body resp = Some body \<and> map_of body ''id'' = Some ident
            \<longrightarrow> create_and_activate_fido_method w usr art sn tok s
                  = Some (Inr (True, MethodId ident),
                          s\<lparr>calls := calls s @ [ActivationRequest usr]\<rparr>))
       \<and> (status_code resp \<noteq> 201
            \<longrightarrow> create_and_activate_fido_method w usr art sn tok s
                  = Some (Inr (False, EmptyList),
                          s\<lparr>calls := calls s @ [ActivationRequest usr]\<rparr>))
       \<and> (\<forall>flag found s'.
             create_and_activate_fido_method w usr art sn tok s
               = Some (Inr (flag, MethodId found), s')
             \<longrightarrow> flag \<and> status_code resp = 201
                 \<and> (\<exists>fields. json_body resp = Some fields \<and> map_of fields ''id'' = Some found)
                 \<and> s' = s\<lparr>calls := calls s @ [ActivationRequest usr]\<rparr>)
       \<and> (\<forall>lc row rest rows users s0.
             0 < lc \<and> 6 \<le> length row \<and> row ! 0 = usr
             \<and> create_credentials_on_security_key w (row ! 2) (row ! 3) (row ! 1) (row ! 0)
                  (row ! 5) s0 = Some (Inr (art, sn), s)
             \<longrightarrow>
               (status_code resp \<noteq> 201 \<longrightarrow>
                  main_loop w tok lc (row # rest) rows users s0
                    = main_loop w tok (lc + 1) rest
                        (rows @ [\<lparr> upn = usr, authMethodObjectId = EmptyList,
                                   serialNumber = sn, PIN = pin s \<rparr>])
                        (users @ [usr]) (s\<lparr>calls := calls s @ [ActivationRequest usr]\<rparr>))
             \<and> (status_code resp = 201 \<and> json_body resp = Some body
                  \<and> map_of body ''id'' = Some ident \<longrightarrow>
                  main_loop w tok lc (row # rest) rows users s0
                    = main_loop w tok (lc + 1) rest
                        (rows @ [\<lparr> upn = usr, authMethodObjectId = MethodId ident,
                                   serialNumber = sn, PIN = pin s \<rparr>])
                        (users @ [usr]) (s\<lparr>calls := calls s @ [ActivationRequest usr]\<rparr>)))"
proof -
  let ?s' = "s\<lparr>calls := calls s @ [ActivationRequest usr]\<rparr>"
  have created: "status_code resp = 201 \<and> json_body resp = Some body
                   \<and> map_of body ''id'' = Some ident
            \<longrightarrow> create_and_activate_fido_method w usr art sn tok s
                  = Some (Inr (True, MethodId ident), ?s')"
    using activation_created[OF assms] by blast
  have refused: "status_code resp \<noteq> 201
            \<longrightarrow> create_and_activate_fido_method w usr art sn tok s
                  = Some (Inr (False, EmptyList), ?s')"
    using activation_refused[OF assms] by blast
  have only: "\<forall>flag found s'.
             create_and_activate_fido_method w usr art sn tok s
               = Some (Inr (flag, MethodId found), s')
             \<longrightarrow> flag \<and> status_code resp = 201
                 \<and> (\<exists>fields. json_body resp = Some fields \<and> map_of fields ''id'' = Some found)
                 \<and> s' = ?s'"
    using assms
    by (auto simp: create_and_activate_fido_method_def then_do_def external_def ok_def lift_def
        raise_def split: if_splits option.splits)
  have rows: "\<forall>lc row rest rows users s0.
             0 < lc \<and> 6 \<le> length row \<and> row ! 0 = usr
             \<and> create_credentials_on_security_key w (row ! 2) (row ! 3) (row ! 1) (row ! 0)
                  (row ! 5) s0 = Some (Inr (art, sn), s)
             \<longrightarrow>
               (status_code resp \<noteq> 201 \<longrightarrow>
                  main_loop w tok lc (row # rest) rows users s0
                    = main_loop w tok (lc + 1) rest
                        (rows @ [\<lparr> upn = usr, authMethodObjectId = EmptyList,
                                   serialNumber = sn, PIN = pin s \<rparr>])
                        (users @ [usr]) ?s')
             \<and> (status_code resp = 201 \<and> json_body resp = Some body
                  \<and> map_of body ''id'' = Some ident \<longrightarrow>
                  main_loop w tok lc (row # rest) rows users s0
                    = main_loop w tok (lc + 1) rest
                        (rows @ [\<lparr> upn = usr, authMethodObjectId = MethodId ident,
                                   serialNumber = sn, PIN = pin s \<rparr>])
                        (users @ [usr]) ?s')"
  proof (intro allI impI conjI)
    fix lc :: nat and row rest rows users s0
    assume h: "0 < lc \<and> 6 \<le> length row \<and> row ! 0 = usr
               \<and> create_credentials_on_security_key w (row ! 2) (row ! 3) (row ! 1) (row ! 0)
                    (row ! 5) s0 = Some (Inr (art, sn), s)"
    assume st: "status_code resp \<noteq> 201"
    from h have u: "row ! 0 = usr" by blast
    have act: "create_and_activate_fido_method w (row ! 0) art sn tok s
             = Some (Inr (False, EmptyList), ?s')"
      unfolding u by (rule activation_refused[OF assms st])
    from h have "main_loop w tok lc (row # rest) rows users s0
             = main_loop w tok (lc + 1) rest
                 (rows @ [\<lparr> upn = row ! 0, authMethodObjectId = EmptyList, serialNumber = sn,
                            PIN = pin ?s' \<rparr>])
                 (users @ [row ! 0]) ?s'"
      by (intro main_loop_writes[OF _ _ _ act]) blast+
    then show "main_loop w tok lc (row # rest) rows users s0
                      = main_loop w tok (lc + 1) rest
                          (rows @ [\<lparr> upn = usr, authMethodObjectId = EmptyList,
                                     serialNumber = sn, PIN = pin s \<rparr>])
                          (users @ [usr]) ?s'"
      using u by simp
  next
    fix lc :: nat and row rest rows users s0
    assume h: "0 < lc \<and> 6 \<le> length row \<and> row ! 0 = usr
               \<and> create_credentials_on_security_key w (row ! 2) (row ! 3) (row ! 1) (row ! 0)
                    (row ! 5) s0 = Some (Inr (art, sn), s)"
    assume st: "status_code resp = 201 \<and> json_body resp = Some body
                    \<and> map_of body ''id'' = Some ident"
    from h have u: "row ! 0 = usr" by blast
    have act: "create_and_activate_fido_method w (row ! 0) art sn tok s
             = Some (Inr (True, MethodId ident), ?s')"
      unfolding u using activation_created[OF assms] st by blast
    from h have "main_loop w tok lc (row # rest) rows users s0
             = main_loop w tok (lc + 1) rest
                 (rows @ [\<lparr> upn = row ! 0, authMethodObjectId = MethodId ident,
                            serialNumber = sn, PIN = pin ?s' \<rparr>])
                 (users @ [row ! 0]) ?s'"
      by (intro main_loop_writes[OF _ _ _ act]) blast+
    then show "main_loop w tok lc (row # rest) rows users s0
                      = main_loop w tok (lc + 1) rest
                          (rows @ [\<lparr> upn = usr, authMethodObjectId = MethodId ident,
                                     serialNumber = sn, PIN = pin s \<rparr>])
                          (users @ [usr]) ?s'"
      using u by simp
  qed
  show ?thesis
    by (rule conjI[OF created conjI[OF refused conjI[OF only rows]]])
qed

text \<open>
  The laboratory's endpoint refuses "carol" with status 400 and answers "alice" with
  status 201 and the identifier abc123; the row written for "carol" has the empty list
  in its second column, and one request was made for her.
\<close>

theorem activation_status_decides_witness:
  "create_and_activate_fido_method lab_world ''carol'' lab_artifact (ThalesSerial ''THALES01'')
       ''token'' after_token
     = Some (Inr (False, EmptyList),
             after_token\<lparr>calls := [TokenRequest, ActivationRequest ''carol'']\<rparr>)
   \<and> create_and_activate_fido_method lab_world ''alice'' lab_artifact (ThalesSerial ''THALES01'')
       ''token'' after_token
     = Some (Inr (True, MethodId ''abc123''),
             after_token\<lparr>calls := [TokenRequest, ActivationRequest ''alice'']\<rparr>)
   \<and> (\<exists>s. main_loop lab_world ''token'' 1 [lab_csv ! 3] [] [] after_token
            = Some \<lparr> written = [\<lparr> upn = ''carol'', authMethodObjectId = EmptyList,
                                   serialNumber = ThalesSerial ''THALES01'',
                                   PIN = ''012345'' \<rparr>],
                     processing = [''carol''], at_exit = s, ending = Finished \<rparr>
          \<and> activation_requests (calls s) = [''carol''])"
proof -
  let ?sn = "ThalesSerial ''THALES01''"
  let ?ext = "JDict [(''credProtect'', JInt 1), (''hmac-secret'', JBool True)]"
  have ext: "clientExtensionResults lab_world (extn lab_artifact) = Inr ?ext"
    by (simp add: lab_defs)
  have refused: "activation_reply lab_world h ''carol'' lab_artifact ?ext ?sn ''token''
                   = Inr \<lparr> status_code = 400, json_body = None \<rparr>" for h
    by (simp add: lab_world_def)
  have created: "activation_reply lab_world h ''alice'' lab_artifact ?ext ?sn ''token''
                   = Inr \<lparr> status_code = 201, json_body = Some [(''id'', ''abc123'')] \<rparr>" for h
    by (simp add: lab_world_def)
  have a: "create_and_activate_fido_method lab_world ''carol'' lab_artifact ?sn ''token'' after_token
     = Some (Inr (False, EmptyList),
             after_token\<lparr>calls := [TokenRequest, ActivationRequest ''carol'']\<rparr>)"
    using activation_status_decides[where s = after_token, OF ext refused, THEN conjunct2,
        THEN conjunct1]
    by (simp add: after_token_def)
  have b: "create_and_activate_fido_method lab_world ''alice'' lab_artifact ?sn ''token'' after_token
     = Some (Inr (True, MethodId ''abc123''),
             after_token\<lparr>calls := [TokenRequest, ActivationRequest ''alice'']\<rparr>)"
    using activation_status_decides[where s = after_token and body = "[(''id'', ''abc123'')]"
        and ident = "''abc123''", OF ext created, THEN conjunct1]
    by (simp add: after_token_def)
  have "\<exists>s. create_credentials_on_security_key lab_world (lab_csv ! 3 ! 2) (lab_csv ! 3 ! 3)
               (lab_csv ! 3 ! 1) (lab_csv ! 3 ! 0) (lab_csv ! 3 ! 5) after_token
             = Some (Inr (lab_artifact, ?sn), s)
           \<and> pin s = ''012345'' \<and> activation_requests (calls s) = []"
    by (simp add: run_defs lab_defs after_token_def activation_requests_def
        List.map_filter_simps)
  then obtain s where
    cer: "create_credentials_on_security_key lab_world (lab_csv ! 3 ! 2) (lab_csv ! 3 ! 3)
               (lab_csv ! 3 ! 1) (lab_csv ! 3 ! 0) (lab_csv ! 3 ! 5) after_token
             = Some (Inr (lab_artifact, ?sn), s)"
    and p: "pin s = ''012345''" and none: "activation_requests (calls s) = []"
    by blast
  have row: "6 \<le> length (lab_csv ! 3)" "lab_csv ! 3 ! 0 = ''carol''"
    by (simp_all add: lab_csv_def)
  have st: "status_code \<lparr> status_code = 400, json_body = None \<rparr> \<noteq> 201"
    by simp
  have entry: "0 < (1 :: nat) \<and> 6 \<le> length (lab_csv ! 3) \<and> lab_csv ! 3 ! 0 = ''carol''
      \<and> create_credentials_on_security_key lab_world (lab_csv ! 3 ! 2) (lab_csv ! 3 ! 3)
               (lab_csv ! 3 ! 1) (lab_csv ! 3 ! 0) (lab_csv ! 3 ! 5) after_token
             = Some (Inr (lab_artifact, ?sn), s)"
    using cer row by simp
  from activation_status_decides[where s = s and tok = "''token''", OF ext refused,
      THEN conjunct2, THEN conjunct2, THEN conjunct2, rule_format, OF entry, THEN conjunct1,
      rule_format, OF st]
  have "main_loop lab_world ''token'' 1 (lab_csv ! 3 # []) [] [] after_token
          = main_loop lab_world ''token'' (1 + 1) []
              ([] @ [\<lparr> upn = ''carol'', authMethodObjectId = EmptyList, serialNumber = ?sn,
                        PIN = pin s \<rparr>])
              ([] @ [''carol'']) (s\<lparr>calls := calls s @ [ActivationRequest ''carol'']\<rparr>)" .
  then have c: "main_loop lab_world ''token'' 1 [lab_csv ! 3] [] [] after_token
            = Some \<lparr> written = [\<lparr> upn = ''carol'', authMethodObjectId = EmptyList,
                                   serialNumber = ?sn, PIN = ''012345'' \<rparr>],
                     processing = [''carol''],
                     at_exit = s\<lparr>calls := calls s @ [ActivationRequest ''carol'']\<rparr>,
                     ending = Finished \<rparr>"
    using p by simp
  have "activation_requests (calls (s\<lparr>calls := calls s @ [ActivationRequest ''carol'']\<rparr>))
          = [''carol'']"
    using none by (simp add: activation_requests_def List.map_filter_def)
  with a b c show ?thesis
    by blast
qed

text \<open>
  Whole runs of \<^verbatim>\<open>main\<close>: "carol" before "alice", one request each; and a key whose
  extension results do not decode, where the activation call raises before any request
  and the \<^verbatim>\<open>except\<close> clause ends the run with nothing written.
\<close>

lemma run_carol:
  "map_option (\<lambda>r. (map upn (written r), map authMethodObjectId (written r),
                      activation_requests (calls (at_exit r)), processing r, ending r))
     (main lab_world carol_csv)
   = Some ([''carol'', ''alice''], [EmptyList, MethodId ''abc123''], [''carol'', ''alice''],
           [''carol'', ''alice''], Finished)"
  by (simp add: run_defs lab_defs carol_csv_def activation_requests_def List.map_filter_simps)

lemma run_bare:
  "map_option (\<lambda>r. (written r, activation_requests (calls (at_exit r)), processing r, ending r))
     (main bare_world lab_csv)
   = Some ([], [], [''alice''], Aborted (BinasciiError ''Incorrect padding''))"
  by (simp add: run_defs lab_defs bare_world_def bare_device_def activation_requests_def
      List.map_filter_simps)

subsection \<open>The PIN column\<close>

text \<open>
  \<^verbatim>\<open>set_ctap21_flags\<close> stores what the operator types in the global, when the PIN is
  not generated and the Windows client is not in use.
\<close>

lemma set_ctap21_flags_keeps_typed_pin:
  assumes "\<not> windows_nonadmin w" and "\<not> setRandomPIN (cfg w)"
    and "set_ctap21_flags w dev s = Some (r, s')"
  shows "pin s' = operator_input w (prompts s)"
  using assms
  by (auto simp: set_ctap21_flags_def then_do_def external_def ok_def getpass_def assign_pin_def
      read_pin_def split: sum.splits if_splits)

text \<open>
  Claim C3 (the code departs from it). With \<^verbatim>\<open>setRandomPIN\<close> false and
  \<^verbatim>\<open>setMinimumPINLength\<close> true, the PIN the operator types at the second prompt
  (271828 in the laboratory) is the PIN column of the row written.
\<close>

theorem typed_pin_is_written:
  "map_option (\<lambda>r. (map upn (written r), map PIN (written r), ending r))
     (main prompting_world alice_csv)
   = Some ([''alice''], [''271828''], Finished)
   \<and> operator_input prompting_world 1 = ''271828''
   \<and> \<not> setRandomPIN (cfg prompting_world)"
  by (simp add: run_defs lab_defs prompting_world_def alice_csv_def)


text \<open>
  The sibling path: with \<^verbatim>\<open>setRandomPIN\<close> false and no flag to set, the PIN the
  operator types is handed to the authenticator by \<^verbatim>\<open>request_pin\<close> and the PIN column
  stays empty.
\<close>

lemma typed_pin_not_stored_without_flags:
  "map_option (\<lambda>r. (map upn (written r), map PIN (written r), prompts (at_exit r), ending r))
     (main asking_world alice_csv)
   = Some ([''alice''], [[]], 1, Finished)"
  by (simp add: run_defs lab_defs asking_world_def alice_csv_def)

subsection \<open>The batch\<close>

text \<open>
  The loop over a worklist in two parts is the loop over the first part, continued over
  the second when the first ran to its end; a part that ran to its end wrote one row per
  entry, in order, after the rows it found.
\<close>

lemma main_loop_append:
  "main_loop w tok lc (xs @ ys) rows users s =
     (case main_loop w tok lc xs rows users s of
        None \<Rightarrow> None
      | Some r \<Rightarrow>
          if ending r = Finished
          then main_loop w tok (lc + length xs) ys (written r) (processing r) (at_exit r)
          else Some r)"
proof (induction xs arbitrary: lc rows users s)
  case Nil
  show ?case by simp
next
  case (Cons x xs)
  show ?case
  proof (cases "lc = 0")
    case True
    then show ?thesis
      using Cons.IH[of "Suc 0" rows users s] by (simp split: option.splits)
  next
    case False
    show ?thesis
    proof (cases "length x < 6")
      case True
      with False show ?thesis by simp
    next
      case long: False
      show ?thesis
      proof (cases "try_body w tok x s")
        case None
        with False long show ?thesis by simp
      next
        case (Some res)
        obtain outcome s' where res: "res = (outcome, s')"
          by (cases res)
        show ?thesis
        proof (cases outcome)
          case (Inl e)
          with False long Some res show ?thesis by simp
        next
          case (Inr v)
          obtain am sn where v: "v = (am, sn)"
            by (cases v)
          from False long Some res Inr v show ?thesis
            using Cons.IH[of "lc + 1" _ _ s'] by (simp split: option.splits)
        qed
      qed
    qed
  qed
qed

lemma main_loop_finished:
  assumes "0 < lc"
    and "main_loop w tok lc xs rows users s = Some r"
    and "ending r = Finished"
  shows "length (written r) = length rows + length xs
       \<and> map upn (written r) = map upn rows @ map (\<lambda>row. row ! 0) xs
       \<and> processing r = users @ map (\<lambda>row. row ! 0) xs
       \<and> take (length rows) (written r) = rows"
  using assms
proof (induction xs arbitrary: lc rows users s)
  case Nil
  then show ?case by auto
next
  case (Cons x xs)
  from Cons.prems(1) have nz: "lc \<noteq> 0" by simp
  show ?case
  proof (cases "length x < 6")
    case True
    with nz Cons.prems show ?thesis by auto
  next
    case long: False
    show ?thesis
    proof (cases "try_body w tok x s")
      case None
      with nz long Cons.prems show ?thesis by simp
    next
      case (Some res)
      obtain outcome s' where res: "res = (outcome, s')"
        by (cases res)
      show ?thesis
      proof (cases outcome)
        case (Inl e)
        with nz long Some res Cons.prems show ?thesis by (auto split: if_splits)
      next
        case (Inr v)
        obtain am sn where v: "v = (am, sn)"
          by (cases v)
        let ?row = "\<lparr> upn = x ! 0, authMethodObjectId = am, serialNumber = sn, PIN = pin s' \<rparr>"
        from nz long Some res Inr v Cons.prems(2)
        have step: "main_loop w tok (lc + 1) xs (rows @ [?row]) (users @ [x ! 0]) s' = Some r"
          by simp
        have "0 < lc + 1" by simp
        from Cons.IH[OF this step Cons.prems(3)]
        have ih: "length (written r) = length (rows @ [?row]) + length xs"
          "map upn (written r) = map upn (rows @ [?row]) @ map (\<lambda>row. row ! 0) xs"
          "processing r = (users @ [x ! 0]) @ map (\<lambda>row. row ! 0) xs"
          "take (length (rows @ [?row])) (written r) = rows @ [?row]"
          by blast+
        from ih(4) have "take (length rows) (take (length (rows @ [?row])) (written r)) = rows"
          by simp
        then have "take (length rows) (written r) = rows"
          by (simp add: min_def)
        with ih show ?thesis by simp
      qed
    qed
  qed
qed

lemma main_loop_raises:
  assumes "lc \<noteq> 0"
    and "6 \<le> length row"
    and "try_body w tok row s = Some (Inl e, s')"
  shows "main_loop w tok lc (row # rest) rows users s
           = Some \<lparr> written = rows, processing = users @ [row ! 0], at_exit = s',
                    ending = (if is_Exception e then Aborted e else Uncaught e) \<rparr>"
  using assms by simp


text \<open>
  Each of those rows is the outcome of its entry: the \<^verbatim>\<open>try\<close> body of the entry
  returned, and the row holds what it returned and the PIN it left in the global.
\<close>

lemma main_loop_rows:
  assumes "0 < lc"
    and "main_loop w tok lc xs rows users s = Some r"
    and "ending r = Finished"
  shows "\<forall>i<length xs. \<exists>st am sn st'.
           try_body w tok (xs ! i) st = Some (Inr (am, sn), st')
         \<and> written r ! (length rows + i)
             = \<lparr> upn = xs ! i ! 0, authMethodObjectId = am, serialNumber = sn, PIN = pin st' \<rparr>"
  using assms
proof (induction xs arbitrary: lc rows users s)
  case Nil
  then show ?case by simp
next
  case (Cons x xs)
  from Cons.prems(1) have nz: "lc \<noteq> 0" by simp
  show ?case
  proof (cases "length x < 6")
    case True
    with nz Cons.prems show ?thesis by auto
  next
    case long: False
    show ?thesis
    proof (cases "try_body w tok x s")
      case None
      with nz long Cons.prems show ?thesis by simp
    next
      case (Some res)
      obtain outcome s' where res: "res = (outcome, s')"
        by (cases res)
      show ?thesis
      proof (cases outcome)
        case (Inl e)
        with nz long Some res Cons.prems show ?thesis by (auto split: if_splits)
      next
        case (Inr v)
        obtain am sn where v: "v = (am, sn)"
          by (cases v)
        let ?row = "\<lparr> upn = x ! 0, authMethodObjectId = am, serialNumber = sn, PIN = pin s' \<rparr>"
        from nz long Some res Inr v Cons.prems(2)
        have step: "main_loop w tok (lc + 1) xs (rows @ [?row]) (users @ [x ! 0]) s' = Some r"
          by simp
        have pos: "0 < lc + 1" by simp
        from main_loop_finished[OF pos step Cons.prems(3)]
        have len: "length (written r) = length (rows @ [?row]) + length xs"
          and tk: "take (length (rows @ [?row])) (written r) = rows @ [?row]"
          by blast+
        have "written r ! length rows = take (length (rows @ [?row])) (written r) ! length rows"
          by simp
        also have "\<dots> = ?row"
          unfolding tk by simp
        finally have first: "written r ! length rows = ?row" .
        have body: "try_body w tok x s = Some (Inr (am, sn), s')"
          using Some res Inr v by simp
        from Cons.IH[OF pos step Cons.prems(3)]
        have ih: "\<forall>i<length xs. \<exists>st am sn st'.
           try_body w tok (xs ! i) st = Some (Inr (am, sn), st')
         \<and> written r ! (length (rows @ [?row]) + i)
             = \<lparr> upn = xs ! i ! 0, authMethodObjectId = am, serialNumber = sn, PIN = pin st' \<rparr>" .
        show ?thesis
        proof (intro allI impI)
          fix i
          assume "i < length (x # xs)"
          show "\<exists>st am sn st'.
             try_body w tok ((x # xs) ! i) st = Some (Inr (am, sn), st')
           \<and> written r ! (length rows + i)
               = \<lparr> upn = (x # xs) ! i ! 0, authMethodObjectId = am, serialNumber = sn,
                   PIN = pin st' \<rparr>"
          proof (cases i)
            case 0
            with first body show ?thesis by auto
          next
            case (Suc j)
            with \<open>i < length (x # xs)\<close> have "j < length xs" by simp
            with ih obtain st am' sn' st' where
              "try_body w tok (xs ! j) st = Some (Inr (am', sn'), st')"
              "written r ! (length (rows @ [?row]) + j)
                 = \<lparr> upn = xs ! j ! 0, authMethodObjectId = am', serialNumber = sn',
                     PIN = pin st' \<rparr>"
              by blast
            with Suc show ?thesis by auto
          qed
        qed
      qed
    qed
  qed
qed

text \<open>
  Claim C4. Let the entries before the failing one be processed to the end (after the
  header row), and let the \<^verbatim>\<open>try\<close> body of the failing entry, that is its ceremony
  or its activation call, raise. Then the run over the whole worklist, whatever entries
  come later, ends right there: the rows written are those of the entries before, one
  each and in order, with the rows that were there before kept; the users announced are
  those entries and the failing one, none of the later ones; the state is the one the
  failing entry left, so nothing was called for a later entry. An entry before the
  failing one is one whose ceremony and activation call both returned, and its row
  holds what they returned: the method identifier, or the empty list when the
  activation was refused. The run is Aborted when the \<^verbatim>\<open>except\<close> clause catches the
  exception, and left by the exception itself when it is not an \<^verbatim>\<open>Exception\<close>.
\<close>

theorem batch_stops_at_first_exception:
  assumes "0 < lc"
    and "main_loop w tok lc before rows users s = Some r"
    and "ending r = Finished"
    and "6 \<le> length failing"
    and "try_body w tok failing (at_exit r) = Some (Inl e, s')"
  shows "main_loop w tok lc (before @ failing # later) rows users s
           = Some \<lparr> written = written r, processing = processing r @ [failing ! 0],
                    at_exit = s',
                    ending = (if is_Exception e then Aborted e else Uncaught e) \<rparr>
       \<and> length (written r) = length rows + length before
       \<and> map upn (written r) = map upn rows @ map (\<lambda>row. row ! 0) before
       \<and> processing r @ [failing ! 0] = users @ map (\<lambda>row. row ! 0) (before @ [failing])
       \<and> take (length rows) (written r) = rows
       \<and> (\<forall>i<length before. \<exists>st am sn st'.
             try_body w tok (before ! i) st = Some (Inr (am, sn), st')
           \<and> written r ! (length rows + i)
               = \<lparr> upn = before ! i ! 0, authMethodObjectId = am, serialNumber = sn,
                   PIN = pin st' \<rparr>)"
proof -
  have pos: "lc + length before \<noteq> 0"
    using assms(1) by simp
  have "main_loop w tok lc (before @ failing # later) rows users s
          = main_loop w tok (lc + length before) (failing # later) (written r) (processing r)
              (at_exit r)"
    using assms(2,3) by (simp add: main_loop_append)
  also have "\<dots> = Some \<lparr> written = written r, processing = processing r @ [failing ! 0],
                    at_exit = s',
                    ending = (if is_Exception e then Aborted e else Uncaught e) \<rparr>"
    by (rule main_loop_raises[OF pos assms(4) assms(5)])
  finally show ?thesis
    using main_loop_finished[OF assms(1,2,3)] main_loop_rows[OF assms(1,2,3)] by simp
qed

text \<open>
  Three entries, the second one's credential creation times out: one row, for the
  first; the third is never announced.
\<close>

theorem batch_stops_at_first_exception_witness:
  "\<exists>r. main_loop lab_world ''token'' 1 (tl lab_csv) [] [] after_token = Some r
      \<and> length (written r) = 1
      \<and> map upn (written r) = [''alice'']
      \<and> processing r = [''alice'', ''bob'']
      \<and> ending r = Aborted (External ''timeout'')"
proof -
  have "\<exists>r s'. main_loop lab_world ''token'' 1 [lab_csv ! 1] [] [] after_token = Some r
      \<and> ending r = Finished
      \<and> try_body lab_world ''token'' (lab_csv ! 2) (at_exit r)
           = Some (Inl (External ''timeout''), s')"
    by (simp add: run_defs lab_defs after_token_def)
  then obtain r s' where
    a: "main_loop lab_world ''token'' 1 [lab_csv ! 1] [] [] after_token = Some r"
    and b: "ending r = Finished"
    and c: "try_body lab_world ''token'' (lab_csv ! 2) (at_exit r)
              = Some (Inl (External ''timeout''), s')"
    by blast
  have d: "6 \<le> length (lab_csv ! 2)"
    by (simp add: lab_csv_def)
  have e: "tl lab_csv = [lab_csv ! 1] @ lab_csv ! 2 # [lab_csv ! 3]"
    by (simp add: lab_csv_def)
  have f: "lab_csv ! 1 ! 0 = ''alice''" "lab_csv ! 2 ! 0 = ''bob''"
    by (simp_all add: lab_csv_def)
  from batch_stops_at_first_exception[OF _ a b d c, of "[lab_csv ! 3]"]
  show ?thesis
    unfolding e using f by simp
qed

text \<open>
  The same worklist through \<^verbatim>\<open>main\<close>, and one where a refused entry comes before the
  failing one: its row, with the empty list, is the one row written.
\<close>

lemma run_lab:
  "map_option (\<lambda>r. (written r, activation_requests (calls (at_exit r)), processing r, ending r))
     (main lab_world lab_csv)
   = Some ([\<lparr> upn = ''alice'', authMethodObjectId = MethodId ''abc123'',
               serialNumber = ThalesSerial ''THALES01'', PIN = ''012345'' \<rparr>],
           [''alice''], [''alice'', ''bob''], Aborted (External ''timeout''))"
  by (simp add: run_defs lab_defs activation_requests_def List.map_filter_simps)

lemma run_refused_then_failing:
  "map_option (\<lambda>r. (map upn (written r), map authMethodObjectId (written r),
                      activation_requests (calls (at_exit r)), processing r, ending r))
     (main lab_world [lab_csv ! 0, lab_csv ! 3, lab_csv ! 2, lab_csv ! 1])
   = Some ([''carol''], [EmptyList], [''carol''], [''carol'', ''bob''],
           Aborted (External ''timeout''))"
  by (simp add: run_defs lab_defs activation_requests_def List.map_filter_simps)

end
